theory Spec2Isabelle
  imports Main
begin

section \<open>Exceptions\<close>

text \<open>
  Every exception the two Lambda functions can meet is a value of \<open>error\<close>; all of them are
  subclasses of Python's \<open>Exception\<close>, so an \<open>except Exception\<close> clause catches each one.
  \<open>Psycopg2Error\<close> stands for the \<open>psycopg2.Error\<close> family, the only one the inner
  \<open>except psycopg2.Error\<close> of the connectivity test catches.
\<close>

datatype error =
    KeyError string
  | ValueError string
  | UnboundLocalError string
  | IndexError string
  | ClientError string
  | WaiterError string
  | ParamValidationError string
  | Psycopg2Error string
  | OtherError string

text \<open>
  \<open>str(e)\<close>: a \<open>KeyError\<close> prints the repr of its key, a \<open>WaiterError\<close> the waiter's name
  and the reason, the others their message.
\<close>

fun str :: "error \<Rightarrow> string" where
  "str (KeyError k) = [CHR 0x27] @ k @ [CHR 0x27]"
| "str (ValueError m) = m"
| "str (UnboundLocalError v) =
     ''cannot access local variable '' @ [CHR 0x27] @ v @ [CHR 0x27] @
     '' where it is not associated with a value''"
| "str (IndexError m) = m"
| "str (ClientError m) = m"
| "str (WaiterError m) = ''Waiter DBSnapshotCompleted failed: '' @ m"
| "str (ParamValidationError m) = m"
| "str (Psycopg2Error m) = m"
| "str (OtherError m) = m"

fun is_psycopg2_error :: "error \<Rightarrow> bool" where
  "is_psycopg2_error (Psycopg2Error m) = True"
| "is_psycopg2_error e = False"

section \<open>Configuration and request\<close>

text \<open>
  \<open>os.environ\<close> and the incoming \<open>event\<close> are dictionaries from strings to strings.
  \<open>os.environ[k]\<close> raises \<open>KeyError\<close> on a missing key; \<open>event.get(k, d)\<close> falls back to \<open>d\<close>.
\<close>

type_synonym environment = "string \<rightharpoonup> string"
type_synonym event = "string \<rightharpoonup> string"

definition environ :: "environment \<Rightarrow> string \<Rightarrow> error + string" where
  "environ env k = (case env k of None \<Rightarrow> Inl (KeyError k) | Some v \<Rightarrow> Inr v)"

definition get_default :: "event \<Rightarrow> string \<Rightarrow> string \<Rightarrow> string" where
  "get_default ev k d = (case ev k of None \<Rightarrow> d | Some v \<Rightarrow> v)"

subsection \<open>The builtin \<open>int\<close> on a string\<close>

text \<open>
  \<open>int(s)\<close> for ASCII input: surrounding whitespace is dropped, one sign is allowed, and
  the rest is a non-empty run of decimal digits in which single underscores may separate
  digits. Anything else raises \<open>ValueError\<close>.
\<close>

definition is_space :: "char \<Rightarrow> bool" where
  "is_space c = (c \<in> set [CHR '' '', CHR 0x09, CHR 0x0A, CHR 0x0B, CHR 0x0C, CHR 0x0D])"

definition strip :: "string \<Rightarrow> string" where
  "strip s = rev (dropWhile is_space (rev (dropWhile is_space s)))"

definition digit_val :: "char \<Rightarrow> int option" where
  "digit_val c =
     (let n = of_char c :: nat in
      if 48 \<le> n \<and> n \<le> 57 then Some (int n - 48) else None)"

fun digits_from :: "int \<Rightarrow> bool \<Rightarrow> string \<Rightarrow> int option" where
  "digits_from acc after_digit [] = (if after_digit then Some acc else None)"
| "digits_from acc after_digit (c # cs) =
     (if c = CHR ''_'' then (if after_digit then digits_from acc False cs else None)
      else (case digit_val c of
              None \<Rightarrow> None
            | Some d \<Rightarrow> digits_from (10 * acc + d) True cs))"

definition python_int :: "string \<Rightarrow> error + int" where
  "python_int s =
     (let t = strip s;
          (neg, body) =
            (case t of
               c # cs \<Rightarrow> if c = CHR ''-'' then (True, cs)
                         else if c = CHR ''+'' then (False, cs) else (False, t)
             | [] \<Rightarrow> (False, t))
      in case digits_from 0 False body of
           None \<Rightarrow>
             Inl (ValueError (''invalid literal for int() with base 10: ''
                                @ [CHR 0x27] @ s @ [CHR 0x27]))
         | Some n \<Rightarrow> Inr (if neg then - n else n))"

section \<open>Time\<close>

text \<open>
  A naive UTC \<open>datetime\<close> is an integer: the microseconds since 1970-01-01T00:00:00, the
  resolution of Python's \<open>datetime\<close>. \<open>timedelta\<close> values are microsecond counts too, so
  subtraction and comparison are those of the integers. The range limits of \<open>datetime\<close>
  (years 1 to 9999) are not modelled.
\<close>

type_synonym datetime = int

definition timedelta_days :: "int \<Rightarrow> int" where
  "timedelta_days d = d * 86400000000"

definition timedelta_hours :: "int \<Rightarrow> int" where
  "timedelta_hours h = h * 3600000000"

subsection \<open>\<open>strftime\<close>\<close>

function digits_of :: "int \<Rightarrow> string" where
  "digits_of n =
     (if n < 10 then [char_of (48 + n)]
      else digits_of (n div 10) @ [char_of (48 + n mod 10)])"
  by pat_completeness auto
termination
  by (relation "measure nat") auto

declare digits_of.simps [simp del]

definition str_int :: "int \<Rightarrow> string" where
  "str_int i = (if i < 0 then CHR ''-'' # digits_of (- i) else digits_of i)"

definition zero_pad :: "nat \<Rightarrow> int \<Rightarrow> string" where
  "zero_pad width i = (let s = str_int i in replicate (width - length s) CHR ''0'' @ s)"

text \<open>
  The proleptic Gregorian date of a day number (days since 1970-01-01), by the usual
  era arithmetic on 400-year cycles; \<open>div\<close> and \<open>mod\<close> on \<open>int\<close> round down.
\<close>

definition civil_from_days :: "int \<Rightarrow> int \<times> int \<times> int" where
  "civil_from_days z =
     (let z' = z + 719468;
          era = z' div 146097;
          doe = z' mod 146097;
          yoe = (doe - doe div 1460 + doe div 36524 - doe div 146096) div 365;
          y = yoe + era * 400;
          doy = doe - (365 * yoe + yoe div 4 - yoe div 100);
          mp = (5 * doy + 2) div 153;
          d = doy - (153 * mp + 2) div 5 + 1;
          m = (if mp < 10 then mp + 3 else mp - 9)
      in (if m \<le> 2 then y + 1 else y, m, d))"

definition directive :: "char \<Rightarrow> datetime \<Rightarrow> string" where
  "directive c t =
     (let secs = t div 1000000;
          (y, m, d) = civil_from_days (secs div 86400);
          sod = secs mod 86400
      in if c = CHR ''Y'' then zero_pad 4 y
         else if c = CHR ''m'' then zero_pad 2 m
         else if c = CHR ''d'' then zero_pad 2 d
         else if c = CHR ''H'' then zero_pad 2 (sod div 3600)
         else if c = CHR ''M'' then zero_pad 2 (sod mod 3600 div 60)
         else if c = CHR ''S'' then zero_pad 2 (sod mod 60)
         else [CHR ''%'', c])"

fun strftime :: "string \<Rightarrow> datetime \<Rightarrow> string" where
  "strftime (c # d # cs) t =
     (if c = CHR ''%'' then directive d t @ strftime cs t else c # strftime (d # cs) t)"
| "strftime cs t = cs"

declare strftime.simps [simp del]

section \<open>Data model\<close>

text \<open>A snapshot as \<open>describe_db_snapshots\<close> reports it, with the tag list of its ARN.\<close>

record snapshot =
  DBSnapshotIdentifier :: string
  DBSnapshotArn :: string
  DBInstanceIdentifier :: string
  SnapshotCreateTime :: datetime
  Status :: string
  AllocatedStorage :: int
  SnapshotType :: string
  TagList :: "(string \<times> string) list"

record s3_object =
  Key :: string
  Size :: int
  LastModified :: datetime

datatype verdict = PASS | FAIL | WARN

subsection \<open>What the Backup Manager returns\<close>

record snapshot_result =
  snapshot_id :: string
  snapshot_status :: string
  snapshot_size :: int

record cleanup_result =
  deleted_count :: nat
  deleted_snapshots :: "string list"

record export_result =
  export_task_id :: string
  export_status :: string
  s3_location :: string

datatype result =
    Created snapshot_result
  | Cleaned cleanup_result
  | Exported export_result

subsection \<open>What the Backup Verifier reports\<close>

record snapshot_entry =
  entry_id :: string
  entry_created :: datetime
  entry_status :: string
  entry_size_gb :: int

datatype snapshot_verification =
    SnapshotVerification verdict nat nat "snapshot_entry list"
  | SnapshotVerificationError string

datatype dbvalue = IntV int | StrV string

datatype connectivity_test =
    ConnectivityTest verdict dbvalue dbvalue dbvalue verdict
  | ConnectivityTestError string

record export_entry =
  export_key :: string
  export_size :: int
  export_last_modified :: datetime

datatype s3_verification =
    NoExports verdict string nat
  | S3Verification verdict nat int "export_entry list"
  | S3VerificationError string

text \<open>The \<open>status\<close> key of each sub-check's dictionary (an error dictionary says FAIL).\<close>

fun snapshot_verification_status :: "snapshot_verification \<Rightarrow> verdict" where
  "snapshot_verification_status (SnapshotVerification st n_recent n_avail entries) = st"
| "snapshot_verification_status (SnapshotVerificationError e) = FAIL"

fun connectivity_test_status :: "connectivity_test \<Rightarrow> verdict" where
  "connectivity_test_status (ConnectivityTest st ver tables products write_test) = st"
| "connectivity_test_status (ConnectivityTestError e) = FAIL"

fun s3_verification_status :: "s3_verification \<Rightarrow> verdict" where
  "s3_verification_status (NoExports st msg n) = st"
| "s3_verification_status (S3Verification st n n_bytes entries) = st"
| "s3_verification_status (S3VerificationError e) = FAIL"

record verification_results =
  report_timestamp :: datetime
  snapshot_verification :: snapshot_verification
  connectivity_test :: connectivity_test
  s3_verification :: s3_verification
  overall_status :: verdict

subsection \<open>Notifications and the response envelope\<close>

datatype payload =
    ResultPayload result
  | TextPayload string
  | ReportPayload verification_results

record notification =
  TopicArn :: string
  Subject :: string
  message_subject :: string
  message_body :: payload
  message_timestamp :: datetime
  message_status :: string

datatype body =
    ManagerBody string result
  | VerifierBody string verification_results
  | ErrorBody string

record response =
  statusCode :: int
  response_body :: body

section \<open>The external collaborators\<close>

text \<open>
  The control plane, the object store, the notification sink, the secret store and the
  database server are one \<open>world\<close> value that the functions read and update. Each call
  that can fail has an outcome field: \<open>Some e\<close> (or \<open>Inl e\<close>) makes the call raise \<open>e\<close>,
  so the behaviour of the code is stated for every pattern of failures.
  \<^item> \<open>utcnow\<close> is the reading of \<open>datetime.utcnow()\<close>; it moves only when the waiter sleeps.
  \<^item> \<open>db_snapshots\<close> is the snapshot catalog, in the order in which the control plane
    lists it. One \<open>describe_db_snapshots\<close> call returns one page: the first \<open>MaxRecords\<close>
    matching snapshots, 100 when the call gives no \<open>MaxRecords\<close>. The code never asks for
    a second page (it follows no \<open>Marker\<close>).
  \<^item> \<open>snapshot_progress k\<close> is the status the control plane reports for a snapshot being
    created at its \<open>k\<close>-th observation: 0 is the \<open>create_db_snapshot\<close> response, \<open>k > 0\<close>
    the \<open>k\<close>-th poll of the waiter. \<open>poll_error k\<close> makes the \<open>k\<close>-th poll answer with an
    error instead.
  \<^item> \<open>s3_objects b\<close> are the objects of bucket \<open>b\<close>, in the order in which the store lists
    them (key order). One \<open>list_objects_v2\<close> call returns the first 1000 keys under the
    prefix; the code never asks for the continuation. \<open>s3_puts\<close> and \<open>sns_messages\<close>
    record what \<open>put_object\<close> and \<open>publish\<close> accepted.
\<close>

type_synonym credentials = "string \<rightharpoonup> string"

record database =
  connect_error :: "error option"
  execute :: "string \<Rightarrow> error + dbvalue"
  commit_error :: "error option"
  close_error :: "error option"

record world =
  utcnow :: datetime
  db_snapshots :: "snapshot list"
  describe_error :: "error option"
  list_tags_error :: "string \<Rightarrow> error option"
  delete_error :: "string \<Rightarrow> error option"
  create_error :: "error option"
  allocated_storage :: int
  snapshot_progress :: "nat \<Rightarrow> string"
  poll_error :: "nat \<Rightarrow> error option"
  export_task :: "error + string"
  s3_objects :: "string \<Rightarrow> s3_object list"
  list_objects_error :: "error option"
  put_object_error :: "error option"
  s3_puts :: "(string \<times> string \<times> verification_results) list"
  publish_error :: "error option"
  sns_messages :: "notification list"
  secret_value :: "string \<Rightarrow> error + credentials"
  database :: database

subsection \<open>Control-plane calls\<close>

definition describe_db_snapshots ::
    "string \<Rightarrow> string \<Rightarrow> nat option \<Rightarrow> world \<Rightarrow> error + snapshot list" where
  "describe_db_snapshots db_instance_id snapshot_type max_records w =
     (case describe_error w of
        Some e \<Rightarrow> Inl e
      | None \<Rightarrow>
          (let matching =
                 filter (\<lambda>s. DBInstanceIdentifier s = db_instance_id
                              \<and> SnapshotType s = snapshot_type) (db_snapshots w)
           in Inr (take (case max_records of None \<Rightarrow> 100 | Some n \<Rightarrow> n) matching)))"

definition describe_db_snapshot :: "string option \<Rightarrow> world \<Rightarrow> error + snapshot list" where
  "describe_db_snapshot snap_id w =
     (case snap_id of
        None \<Rightarrow> Inl (ParamValidationError ''Invalid type for parameter DBSnapshotIdentifier'')
      | Some i \<Rightarrow>
          (case describe_error w of
             Some e \<Rightarrow> Inl e
           | None \<Rightarrow> Inr (filter (\<lambda>s. DBSnapshotIdentifier s = i) (db_snapshots w))))"

definition list_tags_for_resource ::
    "string \<Rightarrow> world \<Rightarrow> error + (string \<times> string) list" where
  "list_tags_for_resource arn w =
     (case list_tags_error w arn of
        Some e \<Rightarrow> Inl e
      | None \<Rightarrow>
          (case find (\<lambda>s. DBSnapshotArn s = arn) (db_snapshots w) of
             None \<Rightarrow> Inl (ClientError ''DBSnapshotNotFound'')
           | Some s \<Rightarrow> Inr (TagList s)))"

definition delete_db_snapshot :: "string \<Rightarrow> world \<Rightarrow> error + world" where
  "delete_db_snapshot snap_id w =
     (case delete_error w snap_id of
        Some e \<Rightarrow> Inl e
      | None \<Rightarrow>
          Inr (w\<lparr>db_snapshots :=
                   filter (\<lambda>s. DBSnapshotIdentifier s \<noteq> snap_id) (db_snapshots w)\<rparr>))"

section \<open>Backup Manager: \<open>cleanup_old_snapshots\<close>\<close>

text \<open>The \<open>any(...)\<close> over the tag list: the ownership marker.\<close>

definition is_automated :: "(string \<times> string) list \<Rightarrow> bool" where
  "is_automated tag_list =
     list_ex (\<lambda>tag. fst tag = ''CreatedBy'' \<and> snd tag = ''automated-backup-system'') tag_list"

text \<open>
  The \<open>for\<close> loop over the listing. The listing was taken once, before the loop; the tag
  lookup and the deletion act on the world as it is at that iteration. An exception leaves
  the loop with the deletions made so far in place.
\<close>

fun cleanup_loop ::
    "datetime \<Rightarrow> snapshot list \<Rightarrow> string list \<Rightarrow> world \<Rightarrow> (error + string list) \<times> world" where
  "cleanup_loop cutoff_date [] deleted w = (Inr deleted, w)"
| "cleanup_loop cutoff_date (snapshot # rest) deleted w =
     (if SnapshotCreateTime snapshot < cutoff_date then
        (case list_tags_for_resource (DBSnapshotArn snapshot) w of
           Inl e \<Rightarrow> (Inl e, w)
         | Inr tag_list \<Rightarrow>
             if is_automated tag_list then
               (case delete_db_snapshot (DBSnapshotIdentifier snapshot) w of
                  Inl e \<Rightarrow> (Inl e, w)
                | Inr w' \<Rightarrow>
                    cleanup_loop cutoff_date rest
                      (deleted @ [DBSnapshotIdentifier snapshot]) w')
             else cleanup_loop cutoff_date rest deleted w)
      else cleanup_loop cutoff_date rest deleted w)"

definition cleanup_old_snapshots ::
    "string \<Rightarrow> int \<Rightarrow> world \<Rightarrow> (error + cleanup_result) \<times> world" where
  "cleanup_old_snapshots db_instance_id retention_days w =
     (let cutoff_date = utcnow w - timedelta_days retention_days in
      case describe_db_snapshots db_instance_id ''manual'' None w of
        Inl e \<Rightarrow> (Inl e, w)
      | Inr listing \<Rightarrow>
          (case cleanup_loop cutoff_date listing [] w of
             (Inl e, w') \<Rightarrow> (Inl e, w')
           | (Inr deleted, w') \<Rightarrow>
               (Inr \<lparr>deleted_count = length deleted, deleted_snapshots = deleted\<rparr>, w')))"

section \<open>Backup Manager: notifications\<close>

definition publish :: "notification \<Rightarrow> world \<Rightarrow> error + world" where
  "publish n w =
     (case publish_error w of
        Some e \<Rightarrow> Inl e
      | None \<Rightarrow> Inr (w\<lparr>sns_messages := sns_messages w @ [n]\<rparr>))"

text \<open>
  \<open>send_notification\<close> of \<open>backup_manager/index.py\<close>: the whole body is inside
  \<open>try ... except Exception\<close>, so the function returns normally whatever \<open>publish\<close> does.
  The JSON text of the message is kept as its four fields.
\<close>

definition manager_send_notification ::
    "string \<Rightarrow> string \<Rightarrow> payload \<Rightarrow> string \<Rightarrow> world \<Rightarrow> world" where
  "manager_send_notification sns_topic_arn subj msg st w =
     (case publish \<lparr>TopicArn = sns_topic_arn,
                    Subject = ''['' @ st @ ''] DhakaCart Backup Notification'',
                    message_subject = subj, message_body = msg,
                    message_timestamp = utcnow w, message_status = st\<rparr> w of
        Inl e \<Rightarrow> w
      | Inr w' \<Rightarrow> w')"

section \<open>Backup Manager: \<open>create_snapshot\<close>\<close>

definition create_db_snapshot ::
    "string \<Rightarrow> string \<Rightarrow> (string \<times> string) list \<Rightarrow> world \<Rightarrow> error + snapshot \<times> world" where
  "create_db_snapshot snap_id db_instance_id tags w =
     (case create_error w of
        Some e \<Rightarrow> Inl e
      | None \<Rightarrow>
          (let s = \<lparr>DBSnapshotIdentifier = snap_id,
                    DBSnapshotArn = ''arn:aws:rds:snapshot:'' @ snap_id,
                    DBInstanceIdentifier = db_instance_id,
                    SnapshotCreateTime = utcnow w,
                    Status = snapshot_progress w 0,
                    AllocatedStorage = allocated_storage w,
                    SnapshotType = ''manual'',
                    TagList = tags\<rparr>
           in Inr (s, w\<lparr>db_snapshots := db_snapshots w @ [s]\<rparr>)))"

text \<open>
  The waiter \<open>db_snapshot_completed\<close> with \<open>Delay\<close> seconds between polls and at most
  \<open>MaxAttempts\<close> polls. Each poll is a \<open>DescribeDBSnapshots\<close> call for the snapshot: an
  error response makes the waiter raise \<open>WaiterError\<close> at once; otherwise the poll
  observes the status the control plane reports at that moment (the catalog entry shows
  it). The status \<open>available\<close> ends the wait, the last allowed poll without it raises
  \<open>WaiterError\<close>, and otherwise the thread sleeps.
  The first argument counts the polls still allowed, the second numbers the poll.
\<close>

definition poll_snapshot :: "nat \<Rightarrow> world \<Rightarrow> error + string" where
  "poll_snapshot k w =
     (case describe_error w of
        Some e \<Rightarrow> Inl e
      | None \<Rightarrow>
          (case poll_error w k of
             Some e \<Rightarrow> Inl e
           | None \<Rightarrow> Inr (snapshot_progress w k)))"

definition observe :: "string \<Rightarrow> string \<Rightarrow> world \<Rightarrow> world" where
  "observe snap_id st w =
     w\<lparr>db_snapshots :=
         map (\<lambda>s. if DBSnapshotIdentifier s = snap_id then s\<lparr>Status := st\<rparr> else s)
           (db_snapshots w)\<rparr>"

definition sleep :: "int \<Rightarrow> world \<Rightarrow> world" where
  "sleep seconds w = w\<lparr>utcnow := utcnow w + seconds * 1000000\<rparr>"

fun waiter_wait :: "nat \<Rightarrow> nat \<Rightarrow> int \<Rightarrow> string \<Rightarrow> world \<Rightarrow> error option \<times> world" where
  "waiter_wait 0 k delay snap_id w = (Some (WaiterError ''Max attempts exceeded''), w)"
| "waiter_wait (Suc n) k delay snap_id w =
     (case poll_snapshot k w of
        Inl e \<Rightarrow> (Some (WaiterError (''An error occurred: '' @ str e)), w)
      | Inr st \<Rightarrow>
          (let w1 = observe snap_id st w
           in if st = ''available'' then (None, w1)
              else if n = 0 then (Some (WaiterError ''Max attempts exceeded''), w1)
              else waiter_wait n (Suc k) delay snap_id (sleep delay w1)))"

definition create_snapshot ::
    "string \<Rightarrow> string \<Rightarrow> string \<Rightarrow> world \<Rightarrow> (error + snapshot_result) \<times> world" where
  "create_snapshot db_instance_id backup_type kms_key_id w =
     (let timestamp = strftime ''%Y-%m-%d-%H-%M-%S'' (utcnow w);
          snap_id = db_instance_id @ ''-'' @ backup_type @ ''-'' @ timestamp
      in case create_db_snapshot snap_id db_instance_id
                [(''BackupType'', backup_type),
                 (''CreatedBy'', ''automated-backup-system''),
                 (''Timestamp'', timestamp)] w of
           Inl e \<Rightarrow> (Inl e, w)
         | Inr (response, w1) \<Rightarrow>
             (case waiter_wait 120 1 30 snap_id w1 of
                (Some e, w2) \<Rightarrow> (Inl e, w2)
              | (None, w2) \<Rightarrow>
                  (Inr \<lparr>snapshot_id = snap_id,
                        snapshot_status = Status response,
                        snapshot_size = AllocatedStorage response\<rparr>, w2)))"

section \<open>Backup Manager: \<open>export_snapshot_to_s3\<close>\<close>

text \<open>
  \<open>event.get('snapshot_id')\<close> is \<open>None\<close> when the key is missing; the f-string prints it as
  \<open>None\<close> and the control plane refuses it as an identifier. \<open>[0]\<close> on an empty listing
  raises \<open>IndexError\<close>. The export task is started and not waited for.
\<close>

definition start_export_task :: "world \<Rightarrow> error + string" where
  "start_export_task w = export_task w"

definition export_snapshot_to_s3 ::
    "string option \<Rightarrow> string \<Rightarrow> string \<Rightarrow> world \<Rightarrow> error + export_result" where
  "export_snapshot_to_s3 snap_id s3_bucket kms_key_id w =
     (let timestamp = strftime ''%Y-%m-%d-%H-%M-%S'' (utcnow w);
          task_id = (case snap_id of None \<Rightarrow> ''None'' | Some i \<Rightarrow> i)
                      @ ''-export-'' @ timestamp
      in case describe_db_snapshot snap_id w of
           Inl e \<Rightarrow> Inl e
         | Inr [] \<Rightarrow> Inl (IndexError ''list index out of range'')
         | Inr (first # others) \<Rightarrow>
             (case start_export_task w of
                Inl e \<Rightarrow> Inl e
              | Inr st \<Rightarrow>
                  Inr \<lparr>export_task_id = task_id, export_status = st,
                       s3_location = ''s3://'' @ s3_bucket @ ''/exports/''
                                       @ strftime ''%Y/%m/%d'' (utcnow w) @ ''/''\<rparr>))"

section \<open>Backup Manager: \<open>handler\<close>\<close>

text \<open>The \<open>if/elif/else\<close> chain on \<open>action\<close>.\<close>

definition manager_action ::
    "string \<Rightarrow> string \<Rightarrow> event \<Rightarrow> string \<Rightarrow> string \<Rightarrow> string \<Rightarrow> int \<Rightarrow> world
       \<Rightarrow> (error + result) \<times> world" where
  "manager_action action backup_type ev db_instance_id s3_bucket kms_key_id retention_days w =
     (if action = ''create_snapshot'' then
        (case create_snapshot db_instance_id backup_type kms_key_id w of
           (Inl e, w') \<Rightarrow> (Inl e, w')
         | (Inr r, w') \<Rightarrow> (Inr (Created r), w'))
      else if action = ''cleanup_snapshots'' then
        (case cleanup_old_snapshots db_instance_id retention_days w of
           (Inl e, w') \<Rightarrow> (Inl e, w')
         | (Inr r, w') \<Rightarrow> (Inr (Cleaned r), w'))
      else if action = ''export_snapshot'' then
        (case export_snapshot_to_s3 (ev ''snapshot_id'') s3_bucket kms_key_id w of
           Inl e \<Rightarrow> (Inl e, w)
         | Inr r \<Rightarrow> (Inr (Exported r), w))
      else (Inl (ValueError (''Unknown action: '' @ action)), w))"

text \<open>
  The body of the \<open>try\<close> block. An exception leaves it together with the binding of the
  local variable \<open>sns_topic_arn\<close> at that moment: \<open>None\<close> while the assignment on line 27
  has not run, since the \<open>except\<close> block reads that variable.
\<close>

definition manager_try ::
    "environment \<Rightarrow> event \<Rightarrow> world \<Rightarrow> (error \<times> string option + response) \<times> world" where
  "manager_try env ev w =
     (let action = get_default ev ''action'' ''create_snapshot'';
          backup_type = get_default ev ''type'' ''manual''
      in case environ env ''DB_INSTANCE_ID'' of Inl e \<Rightarrow> (Inl (e, None), w)
         | Inr db_instance_id \<Rightarrow>
        (case environ env ''S3_BUCKET'' of Inl e \<Rightarrow> (Inl (e, None), w)
         | Inr s3_bucket \<Rightarrow>
        (case environ env ''SNS_TOPIC_ARN'' of Inl e \<Rightarrow> (Inl (e, None), w)
         | Inr sns_topic_arn \<Rightarrow>
        (case environ env ''KMS_KEY_ID'' of Inl e \<Rightarrow> (Inl (e, Some sns_topic_arn), w)
         | Inr kms_key_id \<Rightarrow>
        (case environ env ''RETENTION_DAYS'' of Inl e \<Rightarrow> (Inl (e, Some sns_topic_arn), w)
         | Inr days \<Rightarrow>
        (case python_int days of Inl e \<Rightarrow> (Inl (e, Some sns_topic_arn), w)
         | Inr retention_days \<Rightarrow>
        (case manager_action action backup_type ev db_instance_id s3_bucket kms_key_id
                retention_days w of
           (Inl e, w1) \<Rightarrow> (Inl (e, Some sns_topic_arn), w1)
         | (Inr r, w1) \<Rightarrow>
             (Inr \<lparr>statusCode = 200,
                   response_body =
                     ManagerBody (''Backup operation '' @ action @ '' completed successfully'') r\<rparr>,
              manager_send_notification sns_topic_arn
                (''Backup operation successful: '' @ action) (ResultPayload r) ''SUCCESS''
                w1))))))))"

text \<open>
  The handler: \<open>Inr\<close> is the returned envelope, \<open>Inl\<close> an exception that leaves the handler
  and reaches the invoking platform (one raised inside the \<open>except\<close> block).
\<close>

definition manager_handler ::
    "environment \<Rightarrow> event \<Rightarrow> world \<Rightarrow> (error + response) \<times> world" where
  "manager_handler env ev w =
     (case manager_try env ev w of
        (Inr resp, w1) \<Rightarrow> (Inr resp, w1)
      | (Inl (e, bound), w1) \<Rightarrow>
          (let error_message = ''Backup operation failed: '' @ str e
           in case bound of
                None \<Rightarrow> (Inl (UnboundLocalError ''sns_topic_arn''), w1)
              | Some sns_topic_arn \<Rightarrow>
                  (Inr \<lparr>statusCode = 500, response_body = ErrorBody error_message\<rparr>,
                   manager_send_notification sns_topic_arn ''Backup operation failed''
                     (TextPayload error_message) ''ERROR'' w1)))"

section \<open>Backup Verifier: the three checks\<close>

definition get_db_credentials :: "string \<Rightarrow> world \<Rightarrow> error + credentials" where
  "get_db_credentials secret_arn w = secret_value w secret_arn"

definition snapshot_entry_of :: "snapshot \<Rightarrow> snapshot_entry" where
  "snapshot_entry_of s =
     \<lparr>entry_id = DBSnapshotIdentifier s, entry_created = SnapshotCreateTime s,
      entry_status = Status s, entry_size_gb = AllocatedStorage s\<rparr>"

definition verify_recent_snapshots :: "string \<Rightarrow> world \<Rightarrow> snapshot_verification" where
  "verify_recent_snapshots db_instance_id w =
     (let cutoff_time = utcnow w - timedelta_hours 48
      in case describe_db_snapshots db_instance_id ''automated'' (Some 20) w of
           Inl e \<Rightarrow> SnapshotVerificationError (str e)
         | Inr automated \<Rightarrow>
             (case describe_db_snapshots db_instance_id ''manual'' (Some 20) w of
                Inl e \<Rightarrow> SnapshotVerificationError (str e)
              | Inr manual \<Rightarrow>
                  (let all_snapshots = automated @ manual;
                       recent_snapshots =
                         filter (\<lambda>s. SnapshotCreateTime s > cutoff_time) all_snapshots;
                       available =
                         filter (\<lambda>s. Status s = ''available'') recent_snapshots
                   in SnapshotVerification
                        (if length available > 0 then PASS else FAIL)
                        (length recent_snapshots)
                        (length available)
                        (map snapshot_entry_of (take 5 available)))))"

text \<open>
  The connectivity test. Every step of the session is an outcome of the database server:
  a failed step raises, and the outer \<open>except Exception\<close> turns it into the error
  dictionary. Only the \<open>products\<close> count has a handler of its own, for \<open>psycopg2.Error\<close>.
  \<open>write_probe\<close> is the part of the function after that inner \<open>try\<close>.
\<close>

definition credential :: "credentials \<Rightarrow> string \<Rightarrow> error + string" where
  "credential db_credentials k =
     (case db_credentials k of None \<Rightarrow> Inl (KeyError k) | Some v \<Rightarrow> Inr v)"

text \<open>The statements of the session, as the source spells them.\<close>

definition sql_version :: string where
  "sql_version = ''SELECT version();''"

definition sql_table_count :: string where
  "sql_table_count =
     ''SELECT COUNT(*) FROM information_schema.tables WHERE table_schema = ''
       @ [CHR 0x27] @ ''public'' @ [CHR 0x27] @ '';''"

definition sql_product_count :: string where
  "sql_product_count = ''SELECT COUNT(*) FROM products;''"

definition test_table_name :: "world \<Rightarrow> string" where
  "test_table_name w = ''backup_test_'' @ str_int (utcnow w div 1000000)"

definition sql_create :: "string \<Rightarrow> string" where
  "sql_create table_name =
     ''CREATE TABLE '' @ table_name @ '' (id SERIAL PRIMARY KEY, test_data TEXT);''"

definition sql_insert :: "string \<Rightarrow> string" where
  "sql_insert table_name =
     ''INSERT INTO '' @ table_name @ '' (test_data) VALUES ('' @ [CHR 0x27]
       @ ''backup_verification_test'' @ [CHR 0x27] @ '');''"

definition sql_count :: "string \<Rightarrow> string" where
  "sql_count table_name = ''SELECT COUNT(*) FROM '' @ table_name @ '';''"

definition sql_drop :: "string \<Rightarrow> string" where
  "sql_drop table_name = ''DROP TABLE '' @ table_name @ '';''"

definition write_probe :: "dbvalue \<Rightarrow> dbvalue \<Rightarrow> dbvalue \<Rightarrow> world \<Rightarrow> connectivity_test" where
  "write_probe db_version table_count product_count w =
     (let db = database w
      in case execute db (sql_create (test_table_name w)) of
           Inl e \<Rightarrow> ConnectivityTestError (str e)
         | Inr created \<Rightarrow>
        (case execute db (sql_insert (test_table_name w)) of
           Inl e \<Rightarrow> ConnectivityTestError (str e)
         | Inr inserted \<Rightarrow>
        (case execute db (sql_count (test_table_name w)) of
           Inl e \<Rightarrow> ConnectivityTestError (str e)
         | Inr test_count \<Rightarrow>
        (case execute db (sql_drop (test_table_name w)) of
           Inl e \<Rightarrow> ConnectivityTestError (str e)
         | Inr dropped \<Rightarrow>
        (case commit_error db of
           Some e \<Rightarrow> ConnectivityTestError (str e)
         | None \<Rightarrow>
        (case close_error db of
           Some e \<Rightarrow> ConnectivityTestError (str e)
         | None \<Rightarrow>
             ConnectivityTest PASS db_version table_count product_count
               (if test_count = IntV 1 then PASS else FAIL)))))))"

definition test_database_connectivity :: "credentials \<Rightarrow> world \<Rightarrow> connectivity_test" where
  "test_database_connectivity db_credentials w =
     (let db = database w
      in case credential db_credentials ''host'' of
           Inl e \<Rightarrow> ConnectivityTestError (str e) | Inr host \<Rightarrow>
        (case credential db_credentials ''port'' of
           Inl e \<Rightarrow> ConnectivityTestError (str e) | Inr port \<Rightarrow>
        (case credential db_credentials ''dbname'' of
           Inl e \<Rightarrow> ConnectivityTestError (str e) | Inr dbname \<Rightarrow>
        (case credential db_credentials ''username'' of
           Inl e \<Rightarrow> ConnectivityTestError (str e) | Inr username \<Rightarrow>
        (case credential db_credentials ''password'' of
           Inl e \<Rightarrow> ConnectivityTestError (str e) | Inr password \<Rightarrow>
        (case connect_error db of
           Some e \<Rightarrow> ConnectivityTestError (str e)
         | None \<Rightarrow>
        (case execute db sql_version of
           Inl e \<Rightarrow> ConnectivityTestError (str e)
         | Inr db_version \<Rightarrow>
        (case execute db sql_table_count of
           Inl e \<Rightarrow> ConnectivityTestError (str e)
         | Inr table_count \<Rightarrow>
        (case execute db sql_product_count of
           Inl e \<Rightarrow>
             if is_psycopg2_error e
             then write_probe db_version table_count (StrV ''N/A (table may not exist)'') w
             else ConnectivityTestError (str e)
         | Inr product_count \<Rightarrow>
             write_probe db_version table_count product_count w)))))))))"

text \<open>The \<open>write_test\<close> key of the dictionary; the error dictionary has none.\<close>

fun write_test :: "connectivity_test \<Rightarrow> verdict option" where
  "write_test (ConnectivityTest st ver tables products wt) = Some wt"
| "write_test (ConnectivityTestError e) = None"

text \<open>
  A session in which no step raises out of the function: the five credentials are
  there, the connection opens, every statement runs (the \<open>products\<close> count may fail with
  a \<open>psycopg2.Error\<close>, which the inner handler absorbs), and commit and close succeed.
\<close>

definition succeeded :: "error + 'a \<Rightarrow> bool" where
  "succeeded r = (case r of Inl e \<Rightarrow> False | Inr v \<Rightarrow> True)"

definition probe_succeeds :: "world \<Rightarrow> bool" where
  "probe_succeeds w =
     (succeeded (execute (database w) (sql_create (test_table_name w)))
      \<and> succeeded (execute (database w) (sql_insert (test_table_name w)))
      \<and> succeeded (execute (database w) (sql_count (test_table_name w)))
      \<and> succeeded (execute (database w) (sql_drop (test_table_name w)))
      \<and> commit_error (database w) = None \<and> close_error (database w) = None)"

definition session_succeeds :: "credentials \<Rightarrow> world \<Rightarrow> bool" where
  "session_succeeds db_credentials w =
     (db_credentials ''host'' \<noteq> None \<and> db_credentials ''port'' \<noteq> None
      \<and> db_credentials ''dbname'' \<noteq> None \<and> db_credentials ''username'' \<noteq> None
      \<and> db_credentials ''password'' \<noteq> None
      \<and> connect_error (database w) = None
      \<and> succeeded (execute (database w) sql_version)
      \<and> succeeded (execute (database w) sql_table_count)
      \<and> (case execute (database w) sql_product_count of
            Inl e \<Rightarrow> is_psycopg2_error e | Inr v \<Rightarrow> True)
      \<and> probe_succeeds w)"

text \<open>
  The export check. \<open>list_objects_v2\<close> answers with the first 1000 objects whose key
  starts with the prefix, and without a \<open>Contents\<close> key (\<open>None\<close>) when there is none.
  Sizes are kept in bytes: the division by \<open>1024 * 1024\<close> and the rounding to two
  decimals are floating point and are left out.
  \<open>sorted(..., reverse=True)\<close> is stable on the reversed list.
\<close>

definition startswith :: "string \<Rightarrow> string \<Rightarrow> bool" where
  "startswith k pfx = (take (length pfx) k = pfx)"

definition list_objects_v2 :: "string \<Rightarrow> string \<Rightarrow> world \<Rightarrow> error + s3_object list option" where
  "list_objects_v2 bucket pfx w =
     (case list_objects_error w of
        Some e \<Rightarrow> Inl e
      | None \<Rightarrow>
          (let objs = take 1000
                        (filter (\<lambda>obj. startswith (Key obj) pfx) (s3_objects w bucket))
           in Inr (if objs = [] then None else Some objs)))"

definition export_entry_of :: "s3_object \<Rightarrow> export_entry" where
  "export_entry_of obj =
     \<lparr>export_key = Key obj, export_size = Size obj, export_last_modified = LastModified obj\<rparr>"

definition verify_s3_backups :: "string \<Rightarrow> world \<Rightarrow> s3_verification" where
  "verify_s3_backups s3_bucket w =
     (let cutoff_time = utcnow w - timedelta_days 7
      in case list_objects_v2 s3_bucket ''exports/'' w of
           Inl e \<Rightarrow> S3VerificationError (str e)
         | Inr None \<Rightarrow> NoExports WARN ''No S3 exports found'' 0
         | Inr (Some contents) \<Rightarrow>
             (let recent_exports = filter (\<lambda>obj. LastModified obj > cutoff_time) contents
              in S3Verification
                   (if length recent_exports > 0 then PASS else WARN)
                   (length recent_exports)
                   (sum_list (map Size recent_exports))
                   (map export_entry_of
                      (take 3 (rev (sort_key LastModified (rev recent_exports)))))))"

section \<open>Backup Verifier: result sink and \<open>handler\<close>\<close>

definition put_object :: "string \<Rightarrow> string \<Rightarrow> verification_results \<Rightarrow> world \<Rightarrow> error + world" where
  "put_object bucket k report w =
     (case put_object_error w of
        Some e \<Rightarrow> Inl e
      | None \<Rightarrow> Inr (w\<lparr>s3_puts := s3_puts w @ [(bucket, k, report)]\<rparr>))"

definition store_verification_results :: "string \<Rightarrow> verification_results \<Rightarrow> world \<Rightarrow> world" where
  "store_verification_results s3_bucket results w =
     (let timestamp = strftime ''%Y/%m/%d/%H-%M-%S'' (utcnow w);
          k = ''verification-results/'' @ timestamp @ ''.json''
      in case put_object s3_bucket k results w of
           Inl e \<Rightarrow> w
         | Inr w' \<Rightarrow> w')"

definition verifier_send_notification ::
    "string \<Rightarrow> string \<Rightarrow> payload \<Rightarrow> string \<Rightarrow> world \<Rightarrow> world" where
  "verifier_send_notification sns_topic_arn subj msg st w =
     (case publish \<lparr>TopicArn = sns_topic_arn,
                    Subject = ''['' @ st @ ''] DhakaCart Backup Verification'',
                    message_subject = subj, message_body = msg,
                    message_timestamp = utcnow w, message_status = st\<rparr> w of
        Inl e \<Rightarrow> w
      | Inr w' \<Rightarrow> w')"

fun verdict_name :: "verdict \<Rightarrow> string" where
  "verdict_name PASS = ''PASS''"
| "verdict_name FAIL = ''FAIL''"
| "verdict_name WARN = ''WARN''"

text \<open>The dictionary \<open>verification_results\<close>; \<open>all([...])\<close> is the conjunction of its list.\<close>

definition compile_results ::
    "datetime \<Rightarrow> snapshot_verification \<Rightarrow> connectivity_test \<Rightarrow> s3_verification
       \<Rightarrow> verification_results" where
  "compile_results now snapshots_checked connectivity_checked s3_checked =
     \<lparr>report_timestamp = now,
      snapshot_verification = snapshots_checked,
      connectivity_test = connectivity_checked,
      s3_verification = s3_checked,
      overall_status =
        (if list_all (\<lambda>b. b)
              [snapshot_verification_status snapshots_checked = PASS,
               connectivity_test_status connectivity_checked = PASS,
               s3_verification_status s3_checked = PASS]
         then PASS else FAIL)\<rparr>"

definition verifier_try ::
    "environment \<Rightarrow> world \<Rightarrow> (error \<times> string option + response) \<times> world" where
  "verifier_try env w =
     (case environ env ''DB_INSTANCE_ID'' of Inl e \<Rightarrow> (Inl (e, None), w)
      | Inr db_instance_id \<Rightarrow>
     (case environ env ''S3_BUCKET'' of Inl e \<Rightarrow> (Inl (e, None), w)
      | Inr s3_bucket \<Rightarrow>
     (case environ env ''SNS_TOPIC_ARN'' of Inl e \<Rightarrow> (Inl (e, None), w)
      | Inr sns_topic_arn \<Rightarrow>
     (case environ env ''SECRET_ARN'' of Inl e \<Rightarrow> (Inl (e, Some sns_topic_arn), w)
      | Inr secret_arn \<Rightarrow>
     (case get_db_credentials secret_arn w of Inl e \<Rightarrow> (Inl (e, Some sns_topic_arn), w)
      | Inr db_credentials \<Rightarrow>
          (let results =
                 compile_results (utcnow w)
                   (verify_recent_snapshots db_instance_id w)
                   (test_database_connectivity db_credentials w)
                   (verify_s3_backups s3_bucket w);
               w1 = store_verification_results s3_bucket results w;
               w2 = verifier_send_notification sns_topic_arn
                      (''Backup Verification '' @ verdict_name (overall_status results))
                      (ReportPayload results)
                      (verdict_name (overall_status results)) w1
           in (Inr \<lparr>statusCode = 200,
                    response_body = VerifierBody ''Backup verification completed'' results\<rparr>,
               w2)))))))"

definition verifier_handler ::
    "environment \<Rightarrow> event \<Rightarrow> world \<Rightarrow> (error + response) \<times> world" where
  "verifier_handler env ev w =
     (case verifier_try env w of
        (Inr resp, w1) \<Rightarrow> (Inr resp, w1)
      | (Inl (e, bound), w1) \<Rightarrow>
          (let error_message = ''Backup verification failed: '' @ str e
           in case bound of
                None \<Rightarrow> (Inl (UnboundLocalError ''sns_topic_arn''), w1)
              | Some sns_topic_arn \<Rightarrow>
                  (Inr \<lparr>statusCode = 500, response_body = ErrorBody error_message\<rparr>,
                   verifier_send_notification sns_topic_arn ''Backup Verification Failed''
                     (TextPayload error_message) ''ERROR'' w1)))"

text \<open>
  The listing a cleanup run works on: the one page its \<open>describe_db_snapshots\<close> call
  returns, the first 100 manual snapshots of the instance.
\<close>

definition manual_page :: "string \<Rightarrow> world \<Rightarrow> snapshot list" where
  "manual_page db_instance_id w =
     take 100 (filter (\<lambda>s. DBInstanceIdentifier s = db_instance_id
                           \<and> SnapshotType s = ''manual'') (db_snapshots w))"


text \<open>
  A snapshot is \<open>eligible\<close> at a cutoff when the two tests of the loop body hold for it: it
  was created strictly before the cutoff and its own tag list carries the marker.
\<close>

definition eligible :: "datetime \<Rightarrow> snapshot \<Rightarrow> bool" where
  "eligible cutoff_date s = (SnapshotCreateTime s < cutoff_date \<and> is_automated (TagList s))"


section \<open>Example worlds\<close>

text \<open>
  A catalog for the instance \<open>dhakacart-db\<close>, read at 2023-11-14T22:13:20Z, with a retention
  horizon of 7 days in mind: an owned manual snapshot 8 days old, a manual snapshot of the
  same age without the marker, an owned one 5 days old, an owned one exactly 7 days old,
  a platform-made (automated) one 30 days old, and an owned one a day old.
\<close>

definition example_snapshot ::
    "string \<Rightarrow> string \<Rightarrow> int \<Rightarrow> string \<Rightarrow> (string \<times> string) list \<Rightarrow> snapshot" where
  "example_snapshot ident kind age_days st tag_list =
     \<lparr>DBSnapshotIdentifier = ident, DBSnapshotArn = ''arn:aws:rds:snapshot:'' @ ident,
      DBInstanceIdentifier = ''dhakacart-db'',
      SnapshotCreateTime = 1700000000000000 - timedelta_days age_days,
      Status = st, AllocatedStorage = 20, SnapshotType = kind, TagList = tag_list\<rparr>"

definition owned :: "(string \<times> string) list" where
  "owned = [(''BackupType'', ''manual''), (''CreatedBy'', ''automated-backup-system'')]"

definition example_env :: environment where
  "example_env =
     map_of [(''DB_INSTANCE_ID'', ''dhakacart-db''), (''S3_BUCKET'', ''dhakacart-backups''),
             (''SNS_TOPIC_ARN'', ''arn:aws:sns:backup-alerts''), (''KMS_KEY_ID'', ''kms-key-1''),
             (''RETENTION_DAYS'', ''7''), (''SECRET_ARN'', ''arn:aws:secretsmanager:db'')]"

definition example_credentials :: credentials where
  "example_credentials =
     map_of [(''host'', ''db.internal''), (''port'', ''5432''), (''dbname'', ''dhakacart''),
             (''username'', ''backup''), (''password'', ''secret'')]"

definition example_objects :: "s3_object list" where
  "example_objects =
     [\<lparr>Key = ''exports/2023/10/15/part-0.parquet'', Size = 2097152,
       LastModified = 1700000000000000 - timedelta_days 30\<rparr>,
      \<lparr>Key = ''exports/2023/11/13/part-0.parquet'', Size = 1048576,
       LastModified = 1700000000000000 - timedelta_days 1\<rparr>,
      \<lparr>Key = ''verification-results/2023/11/13/22-13-20.json'', Size = 512,
       LastModified = 1700000000000000 - timedelta_days 1\<rparr>]"

definition example_database :: database where
  "example_database =
     \<lparr>connect_error = None,
      execute = (\<lambda>q. if take 15 q = ''SELECT COUNT(*)'' then Inr (IntV 1)
                      else Inr (StrV ''PostgreSQL 15.4'')),
      commit_error = None, close_error = None\<rparr>"

text \<open>A server on which every count, the scratch table's included, answers 2.\<close>

definition miscounting_database :: database where
  "miscounting_database =
     \<lparr>connect_error = None,
      execute = (\<lambda>q. if take 15 q = ''SELECT COUNT(*)'' then Inr (IntV 2)
                      else Inr (StrV ''PostgreSQL 15.4'')),
      commit_error = None, close_error = None\<rparr>"

definition example_world :: world where
  "example_world =
     \<lparr>utcnow = 1700000000000000,
      db_snapshots =
        [example_snapshot ''old-owned'' ''manual'' 8 ''available'' owned,
         example_snapshot ''old-foreign'' ''manual'' 8 ''available'' [(''CreatedBy'', ''ops-team'')],
         example_snapshot ''new-owned'' ''manual'' 5 ''available'' owned,
         example_snapshot ''edge-owned'' ''manual'' 7 ''available'' owned,
         example_snapshot ''rds:old-auto'' ''automated'' 30 ''available'' owned,
         example_snapshot ''fresh-owned'' ''manual'' 1 ''available'' owned],
      describe_error = None,
      list_tags_error = (\<lambda>arn. None),
      delete_error = (\<lambda>ident. None),
      create_error = None,
      allocated_storage = 20,
      snapshot_progress = (\<lambda>k. if k < 3 then ''creating'' else ''available''),
      poll_error = (\<lambda>k. None),
      export_task = Inr ''STARTING'',
      s3_objects = (\<lambda>b. if b = ''dhakacart-backups'' then example_objects else []),
      list_objects_error = None,
      put_object_error = None,
      s3_puts = [],
      publish_error = None,
      sns_messages = [],
      secret_value =
        (\<lambda>arn. if arn = ''arn:aws:secretsmanager:db'' then Inr example_credentials
               else Inl (ClientError ''ResourceNotFoundException'')),
      database = example_database\<rparr>"






text \<open>The report a verification run on \<open>example_world\<close> compiles.\<close>

definition example_report :: "world \<Rightarrow> verification_results" where
  "example_report w =
     compile_results (utcnow w)
       (verify_recent_snapshots ''dhakacart-db'' w)
       (test_database_connectivity example_credentials w)
       (verify_s3_backups ''dhakacart-backups'' w)"

section \<open>Verified properties\<close>

subsection \<open>Retention: what a cleanup run deletes\<close>

lemma find_distinct_map:
  "distinct (map f c) \<Longrightarrow> x \<in> set c \<Longrightarrow> find (\<lambda>s. f s = f x) c = Some x"
  by (induction c) (auto simp: rev_image_eqI)

lemma list_tags_own:
  assumes "distinct (map DBSnapshotArn (db_snapshots w))" "s \<in> set (db_snapshots w)"
  shows "list_tags_for_resource (DBSnapshotArn s) w =
           (case list_tags_error w (DBSnapshotArn s) of Some e \<Rightarrow> Inl e | None \<Rightarrow> Inr (TagList s))"
  using find_distinct_map[OF assms] by (simp add: list_tags_for_resource_def split: option.splits)

lemma cleanup_loop_effect:
  assumes "distinct (map DBSnapshotIdentifier (db_snapshots w))"
    and "distinct (map DBSnapshotArn (db_snapshots w))"
    and "set xs \<subseteq> set (db_snapshots w)"
    and "distinct (map DBSnapshotIdentifier xs)"
    and "cleanup_loop c xs deleted w = (res, w')"
  shows "\<exists>n\<le>length xs.
           w' = w\<lparr>db_snapshots :=
                    filter (\<lambda>s. DBSnapshotIdentifier s
                                  \<notin> set (map DBSnapshotIdentifier (filter (eligible c) (take n xs))))
                      (db_snapshots w)\<rparr>
         \<and> (case res of Inl e \<Rightarrow> True
             | Inr ds \<Rightarrow> n = length xs
                 \<and> ds = deleted @ map DBSnapshotIdentifier (filter (eligible c) xs))"
  using assms
proof (induction xs arbitrary: deleted w)
  case Nil
  then show ?case by auto
next
  case (Cons x rest)
  have tags: "list_tags_for_resource (DBSnapshotArn x) w =
           (case list_tags_error w (DBSnapshotArn x) of Some e \<Rightarrow> Inl e | None \<Rightarrow> Inr (TagList x))"
    using list_tags_own[of w x] Cons.prems by simp
  show ?case
  proof (cases "SnapshotCreateTime x < c")
    case False
    then have run: "cleanup_loop c rest deleted w = (res, w')"
      using Cons.prems(5) by simp
    from Cons.IH[OF Cons.prems(1,2) _ _ run] Cons.prems(3,4)
    obtain n where n: "n \<le> length rest"
      "w' = w\<lparr>db_snapshots :=
                    filter (\<lambda>s. DBSnapshotIdentifier s
                                  \<notin> set (map DBSnapshotIdentifier (filter (eligible c) (take n rest))))
                      (db_snapshots w)\<rparr>"
      "(case res of Inl e \<Rightarrow> True
             | Inr ds \<Rightarrow> n = length rest
                 \<and> ds = deleted @ map DBSnapshotIdentifier (filter (eligible c) rest))"
      by auto
    show ?thesis
      apply (rule exI[of _ "Suc n"])
      using n False by (auto simp: eligible_def split: sum.splits)
  next
    case True
    show ?thesis
    proof (cases "list_tags_error w (DBSnapshotArn x)")
      case (Some e)
      then have "res = Inl e" "w' = w"
        using Cons.prems(5) True tags by auto
      then show ?thesis by (intro exI[of _ 0]) simp
    next
      case None
      note notagerr = None
      show ?thesis
      proof (cases "is_automated (TagList x)")
        case False
        then have run: "cleanup_loop c rest deleted w = (res, w')"
          using Cons.prems(5) True tags notagerr by simp
        from Cons.IH[OF Cons.prems(1,2) _ _ run] Cons.prems(3,4)
        obtain n where n: "n \<le> length rest"
          "w' = w\<lparr>db_snapshots :=
                    filter (\<lambda>s. DBSnapshotIdentifier s
                                  \<notin> set (map DBSnapshotIdentifier (filter (eligible c) (take n rest))))
                      (db_snapshots w)\<rparr>"
          "(case res of Inl e \<Rightarrow> True
             | Inr ds \<Rightarrow> n = length rest
                 \<and> ds = deleted @ map DBSnapshotIdentifier (filter (eligible c) rest))"
          by auto
        show ?thesis
          apply (rule exI[of _ "Suc n"])
          using n False by (auto simp: eligible_def split: sum.splits)
      next
        case marked: True
        show ?thesis
        proof (cases "delete_error w (DBSnapshotIdentifier x)")
          case (Some e)
          then have "res = Inl e" "w' = w"
            using Cons.prems(5) True tags notagerr marked by (auto simp: delete_db_snapshot_def)
          then show ?thesis by (intro exI[of _ 0]) simp
        next
          case None
          define w1 where "w1 = w\<lparr>db_snapshots :=
                   filter (\<lambda>s. DBSnapshotIdentifier s \<noteq> DBSnapshotIdentifier x) (db_snapshots w)\<rparr>"
          have run: "cleanup_loop c rest (deleted @ [DBSnapshotIdentifier x]) w1 = (res, w')"
            using Cons.prems(5) True tags notagerr marked None
            by (simp add: delete_db_snapshot_def w1_def)
          have d1: "distinct (map DBSnapshotIdentifier (db_snapshots w1))"
            and d2: "distinct (map DBSnapshotArn (db_snapshots w1))"
            using Cons.prems(1,2) by (simp_all add: w1_def distinct_map_filter)
          have sub: "set rest \<subseteq> set (db_snapshots w1)"
          proof
            fix r assume r: "r \<in> set rest"
            then have "DBSnapshotIdentifier r \<noteq> DBSnapshotIdentifier x"
              using Cons.prems(4) by (metis distinct.simps(2) image_eqI list.simps(9) list.set_map)
            moreover have "r \<in> set (db_snapshots w)" using r Cons.prems(3) by auto
            ultimately show "r \<in> set (db_snapshots w1)" by (simp add: w1_def)
          qed
          have dr: "distinct (map DBSnapshotIdentifier rest)"
            using Cons.prems(4) by simp
          from Cons.IH[OF d1 d2 sub dr run]
          obtain n where n: "n \<le> length rest"
            "w' = w1\<lparr>db_snapshots :=
                    filter (\<lambda>s. DBSnapshotIdentifier s
                                  \<notin> set (map DBSnapshotIdentifier (filter (eligible c) (take n rest))))
                      (db_snapshots w1)\<rparr>"
            "(case res of Inl e \<Rightarrow> True
             | Inr ds \<Rightarrow> n = length rest
                 \<and> ds = (deleted @ [DBSnapshotIdentifier x])
                        @ map DBSnapshotIdentifier (filter (eligible c) rest))"
            by auto
          have el: "eligible c x" using True marked by (simp add: eligible_def)
          have flt: "filter (\<lambda>s. DBSnapshotIdentifier s
                                  \<notin> set (map DBSnapshotIdentifier (filter (eligible c) (take n rest))))
                      (db_snapshots w1)
               = filter (\<lambda>s. DBSnapshotIdentifier s
                                  \<notin> set (map DBSnapshotIdentifier (filter (eligible c) (take (Suc n) (x # rest)))))
                      (db_snapshots w)"
            using el by (auto simp: w1_def intro: filter_cong)
          show ?thesis
            apply (rule exI[of _ "Suc n"])
            using n el flt by (auto simp: w1_def split: sum.splits)
        qed
      qed
    qed
  qed
qed


lemma describe_manual_page:
  "describe_db_snapshots d ''manual'' None w =
     (case describe_error w of Some e \<Rightarrow> Inl e | None \<Rightarrow> Inr (manual_page d w))"
  by (simp add: describe_db_snapshots_def manual_page_def split: option.splits)

lemma manual_page_subset:
  "set (manual_page d w) \<subseteq> {s \<in> set (db_snapshots w). DBInstanceIdentifier s = d
                                \<and> SnapshotType s = ''manual''}"
  by (auto simp: manual_page_def dest: in_set_takeD)

lemma manual_page_distinct:
  "distinct (map DBSnapshotIdentifier (db_snapshots w)) \<Longrightarrow>
   distinct (map DBSnapshotIdentifier (manual_page d w))"
  by (simp add: manual_page_def take_map[symmetric] distinct_map_filter distinct_take)


lemma cleanup_old_snapshots_effect:
  assumes ids: "distinct (map DBSnapshotIdentifier (db_snapshots w))"
    and arns: "distinct (map DBSnapshotArn (db_snapshots w))"
    and run: "cleanup_old_snapshots d r w = (res, w')"
  shows "\<exists>ys. set ys \<subseteq> {s \<in> set (manual_page d w). eligible (utcnow w - timedelta_days r) s}
         \<and> w' = w\<lparr>db_snapshots :=
                    filter (\<lambda>s. DBSnapshotIdentifier s \<notin> DBSnapshotIdentifier ` set ys)
                      (db_snapshots w)\<rparr>
         \<and> (case res of Inl e \<Rightarrow> True
             | Inr cr \<Rightarrow>
                 set ys = {s \<in> set (manual_page d w). eligible (utcnow w - timedelta_days r) s}
               \<and> deleted_snapshots cr = map DBSnapshotIdentifier ys
               \<and> deleted_count cr = length ys)"
proof (cases "describe_error w")
  case (Some e)
  then have "w' = w" "res = Inl e"
    using run by (auto simp: cleanup_old_snapshots_def describe_manual_page)
  then show ?thesis by (intro exI[of _ "[]"]) simp
next
  case None
  define c where "c = utcnow w - timedelta_days r"
  define listing where "listing = manual_page d w"
  have d: "describe_db_snapshots d ''manual'' None w = Inr listing"
    using None by (simp add: describe_manual_page listing_def)
  obtain lres lw where loop: "cleanup_loop c listing [] w = (lres, lw)"
    by (cases "cleanup_loop c listing [] w") auto
  have w': "lw = w'" and res: "res = (case lres of Inl e \<Rightarrow> Inl e
       | Inr deleted \<Rightarrow> Inr \<lparr>deleted_count = length deleted, deleted_snapshots = deleted\<rparr>)"
    using run d loop by (auto simp: cleanup_old_snapshots_def c_def split: sum.splits)
  have sub: "set listing \<subseteq> set (db_snapshots w)"
    using manual_page_subset[of d w] by (auto simp: listing_def)
  have dl: "distinct (map DBSnapshotIdentifier listing)"
    using manual_page_distinct[OF ids] by (simp add: listing_def)
  from cleanup_loop_effect[OF ids arns sub dl loop]
  obtain n where n: "n \<le> length listing"
    "lw = w\<lparr>db_snapshots :=
                    filter (\<lambda>s. DBSnapshotIdentifier s
                                  \<notin> set (map DBSnapshotIdentifier (filter (eligible c) (take n listing))))
                      (db_snapshots w)\<rparr>"
    "(case lres of Inl e \<Rightarrow> True
             | Inr ds \<Rightarrow> n = length listing
                 \<and> ds = [] @ map DBSnapshotIdentifier (filter (eligible c) listing))"
    by auto
  define ys where "ys = filter (eligible c) (take n listing)"
  have "set ys \<subseteq> {s \<in> set listing. eligible c s}"
    by (auto simp: ys_def dest: in_set_takeD)
  moreover have "w' = w\<lparr>db_snapshots :=
                    filter (\<lambda>s. DBSnapshotIdentifier s \<notin> DBSnapshotIdentifier ` set ys)
                      (db_snapshots w)\<rparr>"
    using n(2) w' by (simp add: ys_def)
  moreover have "(case res of Inl e \<Rightarrow> True
             | Inr cr \<Rightarrow>
                 set ys = {s \<in> set listing. eligible c s}
               \<and> deleted_snapshots cr = map DBSnapshotIdentifier ys
               \<and> deleted_count cr = length ys)"
    using n(3) res by (auto simp: ys_def split: sum.splits)
  ultimately show ?thesis unfolding c_def listing_def by blast
qed

text \<open>
  What a run removes, and what it keeps: a snapshot leaves the catalog only if it is on
  the listed page and eligible, and when the run returns, every such snapshot has left.
\<close>

lemma cleanup_removed_iff:
  assumes ids: "distinct (map DBSnapshotIdentifier (db_snapshots w))"
    and arns: "distinct (map DBSnapshotArn (db_snapshots w))"
    and run: "cleanup_old_snapshots d r w = (res, w')"
    and s: "s \<in> set (db_snapshots w)"
  shows "(s \<notin> set (db_snapshots w') \<longrightarrow>
            s \<in> set (manual_page d w) \<and> eligible (utcnow w - timedelta_days r) s)
       \<and> (\<forall>cr. res = Inr cr \<longrightarrow>
            (s \<notin> set (db_snapshots w'))
              = (s \<in> set (manual_page d w) \<and> eligible (utcnow w - timedelta_days r) s)
          \<and> (DBSnapshotIdentifier s \<in> set (deleted_snapshots cr))
              = (s \<in> set (manual_page d w) \<and> eligible (utcnow w - timedelta_days r) s)
          \<and> deleted_count cr = length (deleted_snapshots cr))"
proof -
  define E where "E = {s \<in> set (manual_page d w). eligible (utcnow w - timedelta_days r) s}"
  from cleanup_old_snapshots_effect[OF ids arns run]
  obtain ys where ys: "set ys \<subseteq> E"
    "w' = w\<lparr>db_snapshots :=
                    filter (\<lambda>s. DBSnapshotIdentifier s \<notin> DBSnapshotIdentifier ` set ys)
                      (db_snapshots w)\<rparr>"
    "(case res of Inl e \<Rightarrow> True
             | Inr cr \<Rightarrow> set ys = E
               \<and> deleted_snapshots cr = map DBSnapshotIdentifier ys
               \<and> deleted_count cr = length ys)"
    unfolding E_def by blast
  have inj: "inj_on DBSnapshotIdentifier (set (db_snapshots w))"
    using ids by (simp add: distinct_map)
  have ysub: "set ys \<subseteq> set (db_snapshots w)"
    using ys(1) manual_page_subset[of d w] by (auto simp: E_def)
  have mem: "(DBSnapshotIdentifier s \<in> DBSnapshotIdentifier ` set ys) = (s \<in> set ys)"
    using inj s ysub by (meson inj_on_image_mem_iff)
  have gone: "(s \<notin> set (db_snapshots w')) = (s \<in> set ys)"
    using ys(2) s mem by simp
  have safe: "s \<in> set ys \<Longrightarrow> s \<in> E" using ys(1) by auto
  have part1: "s \<notin> set (db_snapshots w') \<longrightarrow>
            s \<in> set (manual_page d w) \<and> eligible (utcnow w - timedelta_days r) s"
    using gone safe by (auto simp: E_def)
  have part2: "\<forall>cr. res = Inr cr \<longrightarrow>
            (s \<notin> set (db_snapshots w'))
              = (s \<in> set (manual_page d w) \<and> eligible (utcnow w - timedelta_days r) s)
          \<and> (DBSnapshotIdentifier s \<in> set (deleted_snapshots cr))
              = (s \<in> set (manual_page d w) \<and> eligible (utcnow w - timedelta_days r) s)
          \<and> deleted_count cr = length (deleted_snapshots cr)"
  proof (intro allI impI)
    fix cr assume "res = Inr cr"
    then have full: "set ys = E" "deleted_snapshots cr = map DBSnapshotIdentifier ys"
      "deleted_count cr = length ys"
      using ys(3) by simp_all
    show "(s \<notin> set (db_snapshots w'))
              = (s \<in> set (manual_page d w) \<and> eligible (utcnow w - timedelta_days r) s)
          \<and> (DBSnapshotIdentifier s \<in> set (deleted_snapshots cr))
              = (s \<in> set (manual_page d w) \<and> eligible (utcnow w - timedelta_days r) s)
          \<and> deleted_count cr = length (deleted_snapshots cr)"
      using gone mem full by (auto simp: E_def)
  qed
  show ?thesis using part1 part2 by blast
qed

lemma example_cleanup:
  "cleanup_old_snapshots ''dhakacart-db'' 7 example_world =
     (Inr \<lparr>deleted_count = 1, deleted_snapshots = [''old-owned'']\<rparr>,
      example_world\<lparr>db_snapshots :=
        [example_snapshot ''old-foreign'' ''manual'' 8 ''available'' [(''CreatedBy'', ''ops-team'')],
         example_snapshot ''new-owned'' ''manual'' 5 ''available'' owned,
         example_snapshot ''edge-owned'' ''manual'' 7 ''available'' owned,
         example_snapshot ''rds:old-auto'' ''automated'' 30 ''available'' owned,
         example_snapshot ''fresh-owned'' ''manual'' 1 ''available'' owned]\<rparr>)"
  by (simp add: cleanup_old_snapshots_def describe_db_snapshots_def example_world_def
      example_snapshot_def owned_def timedelta_days_def list_tags_for_resource_def
      is_automated_def delete_db_snapshot_def)









subsection \<open>Verification: the overall verdict\<close>

lemma compile_results_overall:
  "overall_status (compile_results t a b c) =
     (if snapshot_verification_status a = PASS \<and> connectivity_test_status b = PASS
         \<and> s3_verification_status c = PASS then PASS else FAIL)"
  by (simp add: compile_results_def)

lemma compile_results_fields:
  "snapshot_verification (compile_results t a b c) = a"
  "connectivity_test (compile_results t a b c) = b"
  "s3_verification (compile_results t a b c) = c"
  by (simp_all add: compile_results_def)

lemma verifier_try_report:
  assumes "fst (verifier_try env w) = Inr resp"
  shows "\<exists>db bucket creds.
           resp = \<lparr>statusCode = 200,
                   response_body = VerifierBody ''Backup verification completed''
                     (compile_results (utcnow w) (verify_recent_snapshots db w)
                        (test_database_connectivity creds w) (verify_s3_backups bucket w))\<rparr>"
  using assms
  by (auto simp: verifier_try_def Let_def split: sum.splits)

lemma example_verification:
  "secret_value w ''arn:aws:secretsmanager:db'' = Inr example_credentials \<Longrightarrow>
   fst (verifier_handler example_env ev w) =
     Inr \<lparr>statusCode = 200,
          response_body = VerifierBody ''Backup verification completed'' (example_report w)\<rparr>"
  by (simp add: verifier_handler_def verifier_try_def environ_def example_env_def
      get_db_credentials_def example_report_def Let_def)

lemma example_secret:
  "secret_value example_world ''arn:aws:secretsmanager:db'' = Inr example_credentials"
  by (simp add: example_world_def)

text \<open>
  \<^bold>\<open>C2.\<close> Whenever the verifier's handler returns a verification report, the report's
  overall verdict is PASS if all three sub-checks of that report say PASS and FAIL
  otherwise (so a FAIL or a WARN in any sub-check gives FAIL), and the three sub-verdicts
  are those the three checks computed on the world of the run.
\<close>

theorem overall_verdict:
  assumes "fst (verifier_handler env ev w) = Inr resp"
    and "response_body resp = VerifierBody msg r"
  shows "overall_status r =
           (if snapshot_verification_status (snapshot_verification r) = PASS
               \<and> connectivity_test_status (connectivity_test r) = PASS
               \<and> s3_verification_status (s3_verification r) = PASS
            then PASS else FAIL)
       \<and> (\<exists>db bucket creds.
             snapshot_verification r = verify_recent_snapshots db w
           \<and> connectivity_test r = test_database_connectivity creds w
           \<and> s3_verification r = verify_s3_backups bucket w)"
proof -
  have "fst (verifier_try env w) = Inr resp"
    using assms
    by (auto simp: verifier_handler_def Let_def split: prod.splits sum.splits option.splits)
  from verifier_try_report[OF this] assms(2)
  obtain db bucket creds where
    "r = compile_results (utcnow w) (verify_recent_snapshots db w)
                        (test_database_connectivity creds w) (verify_s3_backups bucket w)"
    by auto
  then show ?thesis
    using compile_results_overall compile_results_fields by metis
qed

theorem overall_verdict_witness:
  "fst (verifier_handler example_env Map.empty example_world) =
     Inr \<lparr>statusCode = 200,
          response_body =
            VerifierBody ''Backup verification completed'' (example_report example_world)\<rparr>
   \<and> snapshot_verification_status (snapshot_verification (example_report example_world)) = PASS
   \<and> connectivity_test_status (connectivity_test (example_report example_world)) = PASS
   \<and> s3_verification_status (s3_verification (example_report example_world)) = PASS
   \<and> overall_status (example_report example_world) = PASS"
proof -
  have run: "fst (verifier_handler example_env Map.empty example_world) =
     Inr \<lparr>statusCode = 200,
          response_body =
            VerifierBody ''Backup verification completed'' (example_report example_world)\<rparr>"
    using example_verification[OF example_secret] .
  have a: "snapshot_verification_status (snapshot_verification (example_report example_world)) = PASS"
    by code_simp
  have b: "connectivity_test_status (connectivity_test (example_report example_world)) = PASS"
    by code_simp
  have c: "s3_verification_status (s3_verification (example_report example_world)) = PASS"
    by code_simp
  from overall_verdict[OF run, of "''Backup verification completed''"
      "example_report example_world"] a b c run
  show ?thesis by simp
qed

subsection \<open>Verification: the connectivity test\<close>

lemma write_probe_ok:
  "probe_succeeds w \<Longrightarrow>
     write_probe v t p w =
       ConnectivityTest PASS v t p
         (if execute (database w) (sql_count (test_table_name w)) = Inr (IntV 1)
          then PASS else FAIL)"
  by (auto simp: write_probe_def probe_succeeds_def succeeded_def Let_def
      split: sum.splits option.splits)

lemma write_probe_error:
  "\<not> probe_succeeds w \<Longrightarrow> \<exists>m. write_probe v t p w = ConnectivityTestError m"
  by (auto simp: write_probe_def probe_succeeds_def succeeded_def Let_def
      split: sum.splits option.splits)

lemma connectivity_shape:
  assumes "test_database_connectivity db_credentials w = r"
  shows "if session_succeeds db_credentials w
         then (\<exists>v t p. r = ConnectivityTest PASS v t p
                    (if execute (database w) (sql_count (test_table_name w)) = Inr (IntV 1)
                     then PASS else FAIL))
         else (\<exists>m. r = ConnectivityTestError m)"
proof (cases "probe_succeeds w")
  case True
  show ?thesis
    using assms True
    by (auto simp: session_succeeds_def test_database_connectivity_def credential_def
        succeeded_def Let_def write_probe_ok split: sum.splits option.splits if_splits)
next
  case False
  show ?thesis
    using assms False
    by (auto simp: session_succeeds_def test_database_connectivity_def credential_def
        succeeded_def Let_def split: sum.splits option.splits if_splits
        intro: write_probe_error)
qed

text \<open>
  \<^bold>\<open>C3\<close>, as the code has it. When no step of the session raises, the connectivity
  sub-verdict is PASS whatever the scratch table's round-trip count is; the count decides
  only the separate \<open>write_test\<close> entry, which is PASS when the count is exactly 1 and FAIL
  otherwise. When a step raises, the sub-verdict is FAIL and there is no \<open>write_test\<close>.
\<close>

theorem connectivity_verdict:
  "(session_succeeds db_credentials w \<longrightarrow>
      connectivity_test_status (test_database_connectivity db_credentials w) = PASS
    \<and> write_test (test_database_connectivity db_credentials w)
        = Some (if execute (database w) (sql_count (test_table_name w)) = Inr (IntV 1)
                then PASS else FAIL))
 \<and> (\<not> session_succeeds db_credentials w \<longrightarrow>
      connectivity_test_status (test_database_connectivity db_credentials w) = FAIL
    \<and> write_test (test_database_connectivity db_credentials w) = None)"
  using connectivity_shape[OF refl, of db_credentials w]
  by (cases "session_succeeds db_credentials w") auto

theorem connectivity_verdict_witness:
  "session_succeeds example_credentials example_world
   \<and> connectivity_test_status (test_database_connectivity example_credentials example_world)
       = PASS
   \<and> write_test (test_database_connectivity example_credentials example_world) = Some PASS
   \<and> \<not> session_succeeds Map.empty example_world
   \<and> connectivity_test_status (test_database_connectivity Map.empty example_world) = FAIL
   \<and> write_test (test_database_connectivity Map.empty example_world) = None"
proof -
  have h: "session_succeeds example_credentials example_world"
    by code_simp
  have e: "execute (database example_world) (sql_count (test_table_name example_world))
             = Inr (IntV 1)"
    by code_simp
  have n: "\<not> session_succeeds Map.empty example_world"
    by (simp add: session_succeeds_def)
  from connectivity_verdict[of example_credentials example_world]
       connectivity_verdict[of Map.empty example_world] h e n
  show ?thesis by simp
qed

text \<open>
  The claim as stated fails: on a server whose scratch-table count answers 2, every step
  succeeds and the sub-verdict is PASS.
\<close>

theorem connectivity_pass_with_wrong_count:
  "session_succeeds example_credentials (example_world\<lparr>database := miscounting_database\<rparr>)
   \<and> execute miscounting_database (sql_count (test_table_name example_world)) = Inr (IntV 2)
   \<and> test_database_connectivity example_credentials
        (example_world\<lparr>database := miscounting_database\<rparr>)
       = ConnectivityTest PASS (StrV ''PostgreSQL 15.4'') (IntV 2) (IntV 2) FAIL
   \<and> connectivity_test_status
        (test_database_connectivity example_credentials
           (example_world\<lparr>database := miscounting_database\<rparr>)) = PASS"
proof -
  have a: "session_succeeds example_credentials
             (example_world\<lparr>database := miscounting_database\<rparr>)"
    by code_simp
  have b: "execute miscounting_database (sql_count (test_table_name example_world))
             = Inr (IntV 2)"
    by code_simp
  have c: "test_database_connectivity example_credentials
        (example_world\<lparr>database := miscounting_database\<rparr>)
       = ConnectivityTest PASS (StrV ''PostgreSQL 15.4'') (IntV 2) (IntV 2) FAIL"
    by code_simp
  show ?thesis using a b c by simp
qed

subsection \<open>The response envelope on a fatal error\<close>

text \<open>
  Both handlers build the failure envelope in an \<open>except\<close> block that first calls
  \<open>send_notification(sns_topic_arn, ...)\<close>. The variable is assigned inside the \<open>try\<close>
  block, third among the configuration reads, so an exception before that assignment
  leaves it unbound and the \<open>except\<close> block itself raises. The handlers raise exactly
  when one of the first three parameters is missing.
\<close>

lemma manager_handler_raises_iff:
  "(\<exists>e. fst (manager_handler env ev w) = Inl e)
     = (env ''DB_INSTANCE_ID'' = None \<or> env ''S3_BUCKET'' = None \<or> env ''SNS_TOPIC_ARN'' = None)"
  by (auto simp: manager_handler_def manager_try_def environ_def Let_def
      split: option.splits sum.splits prod.splits)

lemma verifier_handler_raises_iff:
  "(\<exists>e. fst (verifier_handler env ev w) = Inl e)
     = (env ''DB_INSTANCE_ID'' = None \<or> env ''S3_BUCKET'' = None \<or> env ''SNS_TOPIC_ARN'' = None)"
  by (auto simp: verifier_handler_def verifier_try_def environ_def Let_def
      split: option.splits sum.splits prod.splits)

text \<open>
  \<^bold>\<open>C4.\<close> The claim asks for the envelope \<open>{statusCode: 500, body: {error}}\<close> on every
  fatal error, a missing configuration parameter included. With \<open>DB_INSTANCE_ID\<close> missing
  the manager's handler raises \<open>UnboundLocalError\<close> instead, and so does the verifier's
  with \<open>SNS_TOPIC_ARN\<close> missing.
\<close>

theorem handlers_raise_without_topic:
  "fst (manager_handler (example_env(''DB_INSTANCE_ID'' := None)) Map.empty example_world)
     = Inl (UnboundLocalError ''sns_topic_arn'')
   \<and> fst (verifier_handler (example_env(''SNS_TOPIC_ARN'' := None)) Map.empty example_world)
     = Inl (UnboundLocalError ''sns_topic_arn'')"
  by (simp add: manager_handler_def manager_try_def verifier_handler_def verifier_try_def
      environ_def example_env_def get_default_def)

subsection \<open>Verification: the export check\<close>





subsection \<open>Backup Manager: creating a snapshot\<close>




lemma example_create:
  "fst (create_snapshot ''dhakacart-db'' ''manual'' ''kms-key-1'' example_world) =
     Inr \<lparr>snapshot_id = ''dhakacart-db-manual-2023-11-14-22-13-20'',
          snapshot_status = ''creating'', snapshot_size = 20\<rparr>"
  by code_simp



text \<open>
  A poll that the control plane answers with an error ends the wait at once: the second
  poll fails here, and the call raises the waiter's error although the third poll would
  have seen \<open>available\<close>.
\<close>

lemma example_create_poll_error:
  "fst (create_snapshot ''dhakacart-db'' ''manual'' ''kms-key-1''
          (example_world\<lparr>poll_error := (\<lambda>k. if k = 2 then Some (ClientError ''Throttling'')
                                               else None)\<rparr>))
     = Inl (WaiterError ''An error occurred: Throttling'')"
  by code_simp



subsection \<open>Backup Manager: the default action\<close>

lemma manager_action_create:
  "manager_action ''create_snapshot'' bt ev db bucket kms n w =
     (case create_snapshot db bt kms w of
        (Inl e, w') \<Rightarrow> (Inl e, w')
      | (Inr r, w') \<Rightarrow> (Inr (Created r), w'))"
  by (simp add: manager_action_def)

lemma get_default_upd:
  "get_default (ev(k \<mapsto> v)) k' d = (if k' = k then v else get_default ev k' d)"
  by (simp add: get_default_def)

lemma get_default_missing: "ev k = None \<Longrightarrow> get_default ev k d = d"
  by (simp add: get_default_def)

text \<open>
  \<^bold>\<open>C10.\<close> An event without an \<open>action\<close> key is handled exactly as the same event with
  \<open>action = create_snapshot\<close>, and one that also lacks \<open>type\<close> as the event with
  \<open>type = manual\<close> added. With a complete configuration the handler's answer is the
  outcome of \<open>create_snapshot\<close> (the 200 envelope with its record, or the 500 envelope
  with its error), never the \<open>Unknown action\<close> error.
\<close>

theorem missing_action_defaults:
  assumes "ev ''action'' = None"
  shows "manager_handler env ev w = manager_handler env (ev(''action'' \<mapsto> ''create_snapshot'')) w
       \<and> (ev ''type'' = None \<longrightarrow>
            manager_handler env ev w
              = manager_handler env (ev(''action'' \<mapsto> ''create_snapshot'', ''type'' \<mapsto> ''manual'')) w)
       \<and> (\<forall>db bucket topic kms days n.
             env ''DB_INSTANCE_ID'' = Some db \<and> env ''S3_BUCKET'' = Some bucket
           \<and> env ''SNS_TOPIC_ARN'' = Some topic \<and> env ''KMS_KEY_ID'' = Some kms
           \<and> env ''RETENTION_DAYS'' = Some days \<and> python_int days = Inr n \<longrightarrow>
             fst (manager_handler env ev w) =
               (case fst (create_snapshot db (get_default ev ''type'' ''manual'') kms w) of
                  Inl e \<Rightarrow>
                    Inr \<lparr>statusCode = 500,
                         response_body = ErrorBody (''Backup operation failed: '' @ str e)\<rparr>
                | Inr r \<Rightarrow>
                    Inr \<lparr>statusCode = 200,
                         response_body =
                           ManagerBody ''Backup operation create_snapshot completed successfully''
                             (Created r)\<rparr>))"
proof (intro conjI allI impI)
  have a: "get_default ev ''action'' ''create_snapshot'' = ''create_snapshot''"
    using assms by (simp add: get_default_def)
  have try_eq: "manager_try env ev w = manager_try env (ev(''action'' \<mapsto> ''create_snapshot'')) w"
    by (simp add: manager_try_def a get_default_upd manager_action_create Let_def
        cong: sum.case_cong)
  show "manager_handler env ev w = manager_handler env (ev(''action'' \<mapsto> ''create_snapshot'')) w"
    by (simp add: manager_handler_def try_eq)
  {
    assume t: "ev ''type'' = None"
    have "manager_try env ev w
            = manager_try env (ev(''action'' \<mapsto> ''create_snapshot'', ''type'' \<mapsto> ''manual'')) w"
      using t by (simp add: manager_try_def a get_default_upd get_default_missing
          manager_action_create Let_def cong: sum.case_cong)
    then show "manager_handler env ev w
              = manager_handler env (ev(''action'' \<mapsto> ''create_snapshot'', ''type'' \<mapsto> ''manual'')) w"
      by (simp add: manager_handler_def)
  }
  fix db bucket topic kms days n
  assume c: "env ''DB_INSTANCE_ID'' = Some db \<and> env ''S3_BUCKET'' = Some bucket
           \<and> env ''SNS_TOPIC_ARN'' = Some topic \<and> env ''KMS_KEY_ID'' = Some kms
           \<and> env ''RETENTION_DAYS'' = Some days \<and> python_int days = Inr n"
  show "fst (manager_handler env ev w) =
               (case fst (create_snapshot db (get_default ev ''type'' ''manual'') kms w) of
                  Inl e \<Rightarrow>
                    Inr \<lparr>statusCode = 500,
                         response_body = ErrorBody (''Backup operation failed: '' @ str e)\<rparr>
                | Inr r \<Rightarrow>
                    Inr \<lparr>statusCode = 200,
                         response_body =
                           ManagerBody ''Backup operation create_snapshot completed successfully''
                             (Created r)\<rparr>)"
    using c
    by (cases "create_snapshot db (get_default ev ''type'' ''manual'') kms w")
       (auto simp: manager_handler_def manager_try_def a environ_def manager_action_create
          Let_def split: sum.splits prod.splits)
qed


theorem missing_action_defaults_witness:
  "(Map.empty :: event) ''action'' = None
   \<and> manager_handler example_env Map.empty example_world
       = manager_handler example_env [''action'' \<mapsto> ''create_snapshot''] example_world
   \<and> manager_handler example_env Map.empty example_world
       = manager_handler example_env
           [''action'' \<mapsto> ''create_snapshot'', ''type'' \<mapsto> ''manual''] example_world
   \<and> fst (manager_handler example_env Map.empty example_world) =
       Inr \<lparr>statusCode = 200,
            response_body =
              ManagerBody ''Backup operation create_snapshot completed successfully''
                (Created \<lparr>snapshot_id = ''dhakacart-db-manual-2023-11-14-22-13-20'',
                          snapshot_status = ''creating'', snapshot_size = 20\<rparr>)\<rparr>"
proof -
  have h: "(Map.empty :: event) ''action'' = None" by simp
  have c: "example_env ''DB_INSTANCE_ID'' = Some ''dhakacart-db''
         \<and> example_env ''S3_BUCKET'' = Some ''dhakacart-backups''
         \<and> example_env ''SNS_TOPIC_ARN'' = Some ''arn:aws:sns:backup-alerts''
         \<and> example_env ''KMS_KEY_ID'' = Some ''kms-key-1''
         \<and> example_env ''RETENTION_DAYS'' = Some ''7'' \<and> python_int ''7'' = Inr 7"
    by code_simp
  have g: "get_default Map.empty ''type'' ''manual'' = ''manual''"
    by (simp add: get_default_def)
  have h2: "(Map.empty :: event) ''type'' = None" by simp
  note t = missing_action_defaults[OF h, of example_env example_world]
  note e1 = t[THEN conjunct1]
  note e2 = t[THEN conjunct2, THEN conjunct1, rule_format, OF h2]
  note e3 = t[THEN conjunct2, THEN conjunct2, rule_format, OF c]
  have e4: "fst (manager_handler example_env Map.empty example_world) =
       Inr \<lparr>statusCode = 200,
            response_body =
              ManagerBody ''Backup operation create_snapshot completed successfully''
                (Created \<lparr>snapshot_id = ''dhakacart-db-manual-2023-11-14-22-13-20'',
                          snapshot_status = ''creating'', snapshot_size = 20\<rparr>)\<rparr>"
    unfolding e3 g example_create by simp
  show ?thesis using h e1 e2 e4 by (intro conjI)
qed


subsection \<open>Result sink: failures of \<open>publish\<close> and \<open>put_object\<close>\<close>

text \<open>
  What each operation does in a world whose two sink calls fail is what it does in the
  world where they work: the same result, and the same world but for the sink outcomes.
\<close>

lemma sink_describe:
  "describe_db_snapshots d t m (w\<lparr>publish_error := pe, put_object_error := se\<rparr>)
     = describe_db_snapshots d t m w"
  "describe_db_snapshot i (w\<lparr>publish_error := pe, put_object_error := se\<rparr>)
     = describe_db_snapshot i w"
  "list_tags_for_resource a (w\<lparr>publish_error := pe, put_object_error := se\<rparr>)
     = list_tags_for_resource a w"
  by (simp_all add: describe_db_snapshots_def describe_db_snapshot_def
      list_tags_for_resource_def split: option.splits)

lemma sink_delete:
  "delete_db_snapshot i (w\<lparr>publish_error := pe, put_object_error := se\<rparr>)
     = (case delete_db_snapshot i w of
          Inl e \<Rightarrow> Inl e
        | Inr w' \<Rightarrow> Inr (w'\<lparr>publish_error := pe, put_object_error := se\<rparr>))"
  by (simp add: delete_db_snapshot_def split: option.splits)

lemma sink_cleanup_loop:
  "cleanup_loop c xs ds (w\<lparr>publish_error := pe, put_object_error := se\<rparr>)
     = (fst (cleanup_loop c xs ds w),
        (snd (cleanup_loop c xs ds w))\<lparr>publish_error := pe, put_object_error := se\<rparr>)"
proof (induction xs arbitrary: ds w)
  case Nil
  show ?case by simp
next
  case (Cons x xs)
  show ?case
    by (simp add: sink_describe sink_delete Cons.IH split: sum.splits)
qed

lemma sink_cleanup:
  "cleanup_old_snapshots d r (w\<lparr>publish_error := pe, put_object_error := se\<rparr>)
     = (fst (cleanup_old_snapshots d r w),
        (snd (cleanup_old_snapshots d r w))\<lparr>publish_error := pe, put_object_error := se\<rparr>)"
  by (simp add: cleanup_old_snapshots_def sink_describe sink_cleanup_loop split_beta
      split: sum.splits)

lemma sink_waiter:
  "waiter_wait n k delay i (w\<lparr>publish_error := pe, put_object_error := se\<rparr>)
     = (fst (waiter_wait n k delay i w),
        (snd (waiter_wait n k delay i w))\<lparr>publish_error := pe, put_object_error := se\<rparr>)"
proof (induction n arbitrary: k w)
  case 0
  show ?case by simp
next
  case (Suc n)
  have step: "sleep delay (v\<lparr>publish_error := pe, put_object_error := se\<rparr>)
          = (sleep delay v)\<lparr>publish_error := pe, put_object_error := se\<rparr>" for v
    by (simp add: sleep_def)
  have obs: "observe i st (w\<lparr>publish_error := pe, put_object_error := se\<rparr>)
          = (observe i st w)\<lparr>publish_error := pe, put_object_error := se\<rparr>" for st
    by (simp add: observe_def)
  have poll: "poll_snapshot k (w\<lparr>publish_error := pe, put_object_error := se\<rparr>)
          = poll_snapshot k w"
    by (simp add: poll_snapshot_def cong: option.case_cong)
  show ?case
    by (simp add: Let_def poll step obs Suc.IH split: sum.splits)
qed

lemma sink_create:
  "create_snapshot d b k (w\<lparr>publish_error := pe, put_object_error := se\<rparr>)
     = (fst (create_snapshot d b k w),
        (snd (create_snapshot d b k w))\<lparr>publish_error := pe, put_object_error := se\<rparr>)"
proof -
  have upd: "w\<lparr>publish_error := pe, put_object_error := se, db_snapshots := xs\<rparr>
           = (w\<lparr>db_snapshots := xs\<rparr>)\<lparr>publish_error := pe, put_object_error := se\<rparr>" for xs
    by simp
  show ?thesis
    by (simp add: create_snapshot_def create_db_snapshot_def Let_def upd sink_waiter split_beta
        split: option.splits del: waiter_wait.simps)
qed

lemma sink_export:
  "export_snapshot_to_s3 i b k (w\<lparr>publish_error := pe, put_object_error := se\<rparr>)
     = export_snapshot_to_s3 i b k w"
  by (simp add: export_snapshot_to_s3_def sink_describe start_export_task_def
      split: sum.splits list.splits)

lemma sink_action:
  "manager_action a bt ev d b k r (w\<lparr>publish_error := pe, put_object_error := se\<rparr>)
     = (fst (manager_action a bt ev d b k r w),
        (snd (manager_action a bt ev d b k r w))\<lparr>publish_error := pe, put_object_error := se\<rparr>)"
  by (simp add: manager_action_def sink_create sink_cleanup sink_export split_beta
      split: sum.splits)

lemma sink_manager_try:
  "fst (manager_try env ev (w\<lparr>publish_error := pe, put_object_error := se\<rparr>))
     = fst (manager_try env ev w)"
  by (simp add: manager_try_def Let_def sink_action split_beta split: sum.splits)

lemma sink_manager_handler:
  "fst (manager_handler env ev (w\<lparr>publish_error := pe, put_object_error := se\<rparr>))
     = fst (manager_handler env ev w)"
  by (simp add: manager_handler_def sink_manager_try split_beta Let_def
      split: sum.splits option.splits)


lemma sink_write_probe:
  "write_probe v t p (w\<lparr>publish_error := pe, put_object_error := se\<rparr>) = write_probe v t p w"
proof -
  have n: "test_table_name (w\<lparr>publish_error := pe, put_object_error := se\<rparr>)
             = test_table_name w"
    by (simp add: test_table_name_def)
  show ?thesis
    by (simp add: write_probe_def n Let_def cong: sum.case_cong option.case_cong)
qed

lemma sink_checks:
  "verify_recent_snapshots d (w\<lparr>publish_error := pe, put_object_error := se\<rparr>)
     = verify_recent_snapshots d w"
  "test_database_connectivity c (w\<lparr>publish_error := pe, put_object_error := se\<rparr>)
     = test_database_connectivity c w"
  "verify_s3_backups b (w\<lparr>publish_error := pe, put_object_error := se\<rparr>)
     = verify_s3_backups b w"
  by (simp_all add: verify_recent_snapshots_def sink_describe test_database_connectivity_def
      sink_write_probe verify_s3_backups_def list_objects_v2_def Let_def
      cong: sum.case_cong option.case_cong if_cong)

lemma sink_verifier_try:
  "fst (verifier_try env (w\<lparr>publish_error := pe, put_object_error := se\<rparr>))
     = fst (verifier_try env w)"
  by (simp add: verifier_try_def Let_def sink_checks get_db_credentials_def
      split: sum.splits)

lemma sink_verifier_handler:
  "fst (verifier_handler env ev (w\<lparr>publish_error := pe, put_object_error := se\<rparr>))
     = fst (verifier_handler env ev w)"
  by (simp add: verifier_handler_def sink_verifier_try split_beta Let_def
      split: sum.splits option.splits)


lemma example_manager_cleanup:
  "fst (manager_handler example_env [''action'' \<mapsto> ''cleanup_snapshots''] example_world) =
     Inr \<lparr>statusCode = 200,
          response_body =
            ManagerBody ''Backup operation cleanup_snapshots completed successfully''
              (Cleaned \<lparr>deleted_count = 1, deleted_snapshots = [''old-owned'']\<rparr>)\<rparr>"
  by code_simp

text \<open>
  \<^bold>\<open>C9.\<close> Whatever \<open>publish\<close> and \<open>put_object\<close> do (succeed, or raise any exception), both
  handlers return the same value: the same envelope with the same status code, verdict
  and result, or the same exception. A failed \<open>publish\<close> inside \<open>send_notification\<close> and a
  failed \<open>put_object\<close> inside \<open>store_verification_results\<close> leave the function normally,
  with the world unchanged.
\<close>

theorem sink_failures_are_swallowed:
  "fst (manager_handler env ev (w\<lparr>publish_error := pe, put_object_error := se\<rparr>))
     = fst (manager_handler env ev w)
   \<and> fst (verifier_handler env ev (w\<lparr>publish_error := pe, put_object_error := se\<rparr>))
     = fst (verifier_handler env ev w)
   \<and> (publish_error w = Some e \<longrightarrow>
        manager_send_notification topic subj msg st w = w
      \<and> verifier_send_notification topic subj msg st w = w)
   \<and> (put_object_error w = Some e \<longrightarrow> store_verification_results bucket results w = w)"
  by (simp add: sink_manager_handler sink_verifier_handler manager_send_notification_def
      verifier_send_notification_def store_verification_results_def publish_def
      put_object_def Let_def)

theorem sink_failures_are_swallowed_witness:
  "fst (manager_handler example_env [''action'' \<mapsto> ''cleanup_snapshots'']
          (example_world\<lparr>publish_error := Some (ClientError ''AuthorizationError''),
                         put_object_error := Some (ClientError ''AccessDenied'')\<rparr>)) =
     Inr \<lparr>statusCode = 200,
          response_body =
            ManagerBody ''Backup operation cleanup_snapshots completed successfully''
              (Cleaned \<lparr>deleted_count = 1, deleted_snapshots = [''old-owned'']\<rparr>)\<rparr>
   \<and> fst (verifier_handler example_env Map.empty
          (example_world\<lparr>publish_error := Some (ClientError ''AuthorizationError''),
                         put_object_error := Some (ClientError ''AccessDenied'')\<rparr>)) =
     Inr \<lparr>statusCode = 200,
          response_body =
            VerifierBody ''Backup verification completed'' (example_report example_world)\<rparr>
   \<and> publish_error
        (example_world\<lparr>publish_error := Some (ClientError ''AuthorizationError'')\<rparr>)
       = Some (ClientError ''AuthorizationError'')
   \<and> manager_send_notification ''arn:aws:sns:backup-alerts'' ''Backup operation failed''
        (TextPayload ''Backup operation failed: boom'') ''ERROR''
        (example_world\<lparr>publish_error := Some (ClientError ''AuthorizationError'')\<rparr>)
       = example_world\<lparr>publish_error := Some (ClientError ''AuthorizationError'')\<rparr>"
proof -
  have p: "publish_error
        (example_world\<lparr>publish_error := Some (ClientError ''AuthorizationError'')\<rparr>)
       = Some (ClientError ''AuthorizationError'')"
    by simp
  note t1 = sink_failures_are_swallowed[where env = example_env
      and ev = "[''action'' \<mapsto> ''cleanup_snapshots'']" and w = example_world
      and pe = "Some (ClientError ''AuthorizationError'')"
      and se = "Some (ClientError ''AccessDenied'')"]
  note t2 = sink_failures_are_swallowed[where env = example_env
      and ev = Map.empty and w = example_world
      and pe = "Some (ClientError ''AuthorizationError'')"
      and se = "Some (ClientError ''AccessDenied'')"]
  note t3 = sink_failures_are_swallowed[where
      w = "example_world\<lparr>publish_error := Some (ClientError ''AuthorizationError'')\<rparr>"
      and e = "ClientError ''AuthorizationError''" and topic = "''arn:aws:sns:backup-alerts''"
      and subj = "''Backup operation failed''"
      and msg = "TextPayload ''Backup operation failed: boom''" and st = "''ERROR''"]
  have a: "fst (manager_handler example_env [''action'' \<mapsto> ''cleanup_snapshots'']
          (example_world\<lparr>publish_error := Some (ClientError ''AuthorizationError''),
                         put_object_error := Some (ClientError ''AccessDenied'')\<rparr>)) =
     Inr \<lparr>statusCode = 200,
          response_body =
            ManagerBody ''Backup operation cleanup_snapshots completed successfully''
              (Cleaned \<lparr>deleted_count = 1, deleted_snapshots = [''old-owned'']\<rparr>)\<rparr>"
    using t1[THEN conjunct1] example_manager_cleanup by simp
  have b: "fst (verifier_handler example_env Map.empty
          (example_world\<lparr>publish_error := Some (ClientError ''AuthorizationError''),
                         put_object_error := Some (ClientError ''AccessDenied'')\<rparr>)) =
     Inr \<lparr>statusCode = 200,
          response_body =
            VerifierBody ''Backup verification completed'' (example_report example_world)\<rparr>"
    using t2[THEN conjunct2, THEN conjunct1] example_verification[OF example_secret] by simp
  have c: "manager_send_notification ''arn:aws:sns:backup-alerts'' ''Backup operation failed''
        (TextPayload ''Backup operation failed: boom'') ''ERROR''
        (example_world\<lparr>publish_error := Some (ClientError ''AuthorizationError'')\<rparr>)
       = example_world\<lparr>publish_error := Some (ClientError ''AuthorizationError'')\<rparr>"
    using t3[THEN conjunct2, THEN conjunct2, THEN conjunct1] p by blast
  show ?thesis using a b p c by (intro conjI)
qed



subsection \<open>Cutoff boundaries\<close>

text \<open>
  All three cutoffs are strict comparisons against \<open>utcnow\<close> minus the window: the retention
  engine tests \<open>snapshot_time < cutoff_date\<close>, the two freshness checks test
  \<open>... > cutoff_time\<close>.
\<close>

lemma recent_snapshots_shape:
  assumes "verify_recent_snapshots d w = SnapshotVerification st n a es"
  shows "\<exists>la lm.
           describe_db_snapshots d ''automated'' (Some 20) w = Inr la
         \<and> describe_db_snapshots d ''manual'' (Some 20) w = Inr lm
         \<and> n = length (filter (\<lambda>s. utcnow w - timedelta_hours 48 < SnapshotCreateTime s) (la @ lm))
         \<and> a = length (filter (\<lambda>s. Status s = ''available'')
                  (filter (\<lambda>s. utcnow w - timedelta_hours 48 < SnapshotCreateTime s) (la @ lm)))
         \<and> st = (if 0 < a then PASS else FAIL)
         \<and> es = map snapshot_entry_of (take 5 (filter (\<lambda>s. Status s = ''available'')
                  (filter (\<lambda>s. utcnow w - timedelta_hours 48 < SnapshotCreateTime s) (la @ lm))))"
  using assms
  by (auto simp: verify_recent_snapshots_def Let_def split: sum.splits simp del: filter_filter)

lemma s3_backups_shape:
  assumes "verify_s3_backups b w = S3Verification st n total_size es"
  shows "\<exists>contents.
           list_objects_v2 b ''exports/'' w = Inr (Some contents)
         \<and> n = length (filter (\<lambda>obj. utcnow w - timedelta_days 7 < LastModified obj) contents)
         \<and> st = (if 0 < n then PASS else WARN)
         \<and> es = map export_entry_of (take 3 (rev (sort_key LastModified
                   (rev (filter (\<lambda>obj. utcnow w - timedelta_days 7 < LastModified obj) contents)))))"
  using assms
  by (auto simp: verify_s3_backups_def Let_def split: sum.splits option.splits)


lemma describe_page20:
  assumes "describe_db_snapshots d t (Some 20) w = Inr l"
  shows "l = take 20 (filter (\<lambda>s. DBInstanceIdentifier s = d \<and> SnapshotType s = t)
                        (db_snapshots w))"
  using assms by (auto simp: describe_db_snapshots_def Let_def split: option.splits)

lemma list_objects_page:
  assumes "list_objects_v2 b pfx w = Inr (Some contents)"
  shows "contents = take 1000 (filter (\<lambda>obj. startswith (Key obj) pfx) (s3_objects w b))"
  using assms
  by (auto simp: list_objects_v2_def Let_def split: option.splits if_splits)

lemma filter_take_le: "length (filter P (take k xs)) \<le> length (filter P xs)"
proof -
  have "length (filter P xs) = length (filter P (take k xs @ drop k xs))"
    by simp
  also have "\<dots> = length (filter P (take k xs)) + length (filter P (drop k xs))"
    by (simp only: filter_append length_append)
  finally show ?thesis by simp
qed

lemma filter_two_kinds_le:
  assumes "t1 \<noteq> t2"
  shows "length (filter P (filter (\<lambda>s. I s \<and> K s = t1) xs))
           + length (filter P (filter (\<lambda>s. I s \<and> K s = t2) xs))
         \<le> length (filter (\<lambda>s. I s \<and> P s) xs)"
  using assms by (induction xs) auto

text \<open>
  \<^bold>\<open>C5\<close>. A record dated exactly at a cutoff is on the far side of it. For every world with
  unique snapshot identifiers and ARNs: a snapshot created exactly at the retention cutoff
  is still in the catalog after a cleanup run, whatever the run's outcome, and is not in
  the returned list of deletions. In a snapshot-freshness result, every snapshot shown
  was created strictly after now minus 48 hours, the count of recent snapshots is at most
  the number of catalog snapshots of the instance created strictly after that cutoff, and
  if every snapshot of the instance was created at or before the cutoff the counts are 0
  and the status is \<open>FAIL\<close>. In an export-freshness result, every export shown was modified
  strictly after now minus 7 days, the count of recent exports is at most the number of
  objects under \<open>exports/\<close> modified strictly after that cutoff, and if every object under
  the prefix was modified at or before the cutoff the count is 0 and the status is \<open>WARN\<close>.
\<close>

theorem cutoff_boundary_is_excluded:
  assumes "distinct (map DBSnapshotIdentifier (db_snapshots w))"
    and "distinct (map DBSnapshotArn (db_snapshots w))"
  shows "(\<forall>s res w'.
            s \<in> set (db_snapshots w)
          \<and> SnapshotCreateTime s = utcnow w - timedelta_days retention_days
          \<and> cleanup_old_snapshots d retention_days w = (res, w') \<longrightarrow>
            s \<in> set (db_snapshots w')
          \<and> (\<forall>cr. res = Inr cr \<longrightarrow> DBSnapshotIdentifier s \<notin> set (deleted_snapshots cr)))
       \<and> (\<forall>st n a es.
            verify_recent_snapshots d w = SnapshotVerification st n a es \<longrightarrow>
              (\<forall>e \<in> set es. utcnow w - timedelta_hours 48 < entry_created e)
            \<and> a \<le> n
            \<and> n \<le> length (filter (\<lambda>s. DBInstanceIdentifier s = d
                                      \<and> utcnow w - timedelta_hours 48 < SnapshotCreateTime s)
                             (db_snapshots w))
            \<and> ((\<forall>s \<in> set (db_snapshots w). DBInstanceIdentifier s = d \<longrightarrow>
                   SnapshotCreateTime s \<le> utcnow w - timedelta_hours 48) \<longrightarrow>
                 st = FAIL \<and> n = 0 \<and> a = 0 \<and> es = []))
       \<and> (\<forall>st n total_size es.
            verify_s3_backups b w = S3Verification st n total_size es \<longrightarrow>
              (\<forall>e \<in> set es. utcnow w - timedelta_days 7 < export_last_modified e)
            \<and> n \<le> length (filter (\<lambda>obj. startswith (Key obj) ''exports/''
                                        \<and> utcnow w - timedelta_days 7 < LastModified obj)
                             (s3_objects w b))
            \<and> ((\<forall>obj \<in> set (s3_objects w b). startswith (Key obj) ''exports/'' \<longrightarrow>
                   LastModified obj \<le> utcnow w - timedelta_days 7) \<longrightarrow>
                 st = WARN \<and> n = 0 \<and> es = []))"
proof (intro conjI allI impI)
  fix s res w'
  assume h: "s \<in> set (db_snapshots w)
          \<and> SnapshotCreateTime s = utcnow w - timedelta_days retention_days
          \<and> cleanup_old_snapshots d retention_days w = (res, w')"
  then have ne: "\<not> eligible (utcnow w - timedelta_days retention_days) s"
    by (simp add: eligible_def)
  from h have run: "cleanup_old_snapshots d retention_days w = (res, w')"
    and s: "s \<in> set (db_snapshots w)" by simp_all
  note R = cleanup_removed_iff[OF assms run s]
  show "s \<in> set (db_snapshots w')"
    using R ne by blast
  show "\<And>cr. res = Inr cr \<Longrightarrow> DBSnapshotIdentifier s \<notin> set (deleted_snapshots cr)"
    using R ne by blast
next
  fix st n a es
  assume v: "verify_recent_snapshots d w = SnapshotVerification st n a es"
  let ?R = "\<lambda>s. utcnow w - timedelta_hours 48 < SnapshotCreateTime s"
  from recent_snapshots_shape[OF v] obtain la lm where sh:
    "describe_db_snapshots d ''automated'' (Some 20) w = Inr la"
    "describe_db_snapshots d ''manual'' (Some 20) w = Inr lm"
    "n = length (filter ?R (la @ lm))"
    "a = length (filter (\<lambda>s. Status s = ''available'') (filter ?R (la @ lm)))"
    "st = (if 0 < a then PASS else FAIL)"
    "es = map snapshot_entry_of (take 5 (filter (\<lambda>s. Status s = ''available'')
                  (filter ?R (la @ lm))))"
    by blast
  show "\<forall>e \<in> set es. utcnow w - timedelta_hours 48 < entry_created e"
    unfolding sh(6) by (auto simp: snapshot_entry_of_def dest!: in_set_takeD)
  show "a \<le> n"
    unfolding sh(3,4) by (rule length_filter_le)
  have "n = length (filter ?R la) + length (filter ?R lm)"
    unfolding sh(3) by (simp only: filter_append length_append)
  also have "\<dots> \<le> length (filter ?R (filter (\<lambda>s. DBInstanceIdentifier s = d
                                    \<and> SnapshotType s = ''automated'') (db_snapshots w)))
                 + length (filter ?R (filter (\<lambda>s. DBInstanceIdentifier s = d
                                    \<and> SnapshotType s = ''manual'') (db_snapshots w)))"
    unfolding describe_page20[OF sh(1)] describe_page20[OF sh(2)]
    by (intro add_mono filter_take_le)
  also have "\<dots> \<le> length (filter (\<lambda>s. DBInstanceIdentifier s = d \<and> ?R s) (db_snapshots w))"
    by (rule filter_two_kinds_le) simp
  finally show "n \<le> length (filter (\<lambda>s. DBInstanceIdentifier s = d \<and> ?R s) (db_snapshots w))" .
  {
    assume old: "\<forall>s \<in> set (db_snapshots w). DBInstanceIdentifier s = d \<longrightarrow>
                   SnapshotCreateTime s \<le> utcnow w - timedelta_hours 48"
    have "set la \<subseteq> {s \<in> set (db_snapshots w). DBInstanceIdentifier s = d}"
         "set lm \<subseteq> {s \<in> set (db_snapshots w). DBInstanceIdentifier s = d}"
      unfolding describe_page20[OF sh(1)] describe_page20[OF sh(2)]
      by (auto dest: in_set_takeD)
    then have "\<forall>s \<in> set (la @ lm). \<not> ?R s"
      using old by fastforce
    then have e: "filter ?R (la @ lm) = []"
      by (simp only: filter_False)
    show "st = FAIL" "n = 0" "a = 0" "es = []"
      using sh(3,4,5,6) unfolding e by simp_all
  }
next
  fix st n total_size es
  assume v: "verify_s3_backups b w = S3Verification st n total_size es"
  let ?R = "\<lambda>obj. utcnow w - timedelta_days 7 < LastModified obj"
  from s3_backups_shape[OF v] obtain contents where sh:
    "list_objects_v2 b ''exports/'' w = Inr (Some contents)"
    "n = length (filter ?R contents)"
    "st = (if 0 < n then PASS else WARN)"
    "es = map export_entry_of (take 3 (rev (sort_key LastModified
                   (rev (filter ?R contents)))))"
    by blast
  show "\<forall>e \<in> set es. utcnow w - timedelta_days 7 < export_last_modified e"
    unfolding sh(4) by (auto simp: export_entry_of_def dest!: in_set_takeD)
  have "n \<le> length (filter ?R (filter (\<lambda>obj. startswith (Key obj) ''exports/'')
                                  (s3_objects w b)))"
    unfolding sh(2) list_objects_page[OF sh(1)] by (rule filter_take_le)
  then show "n \<le> length (filter (\<lambda>obj. startswith (Key obj) ''exports/'' \<and> ?R obj)
                             (s3_objects w b))"
    by (simp add: conj_commute)
  {
    assume old: "\<forall>obj \<in> set (s3_objects w b). startswith (Key obj) ''exports/'' \<longrightarrow>
                   LastModified obj \<le> utcnow w - timedelta_days 7"
    have "set contents \<subseteq> {obj \<in> set (s3_objects w b). startswith (Key obj) ''exports/''}"
      unfolding list_objects_page[OF sh(1)] by (auto dest: in_set_takeD)
    then have "\<forall>obj \<in> set contents. \<not> ?R obj"
      using old by fastforce
    then have e: "filter ?R contents = []"
      by (simp only: filter_False)
    show "st = WARN" "n = 0" "es = []"
      using sh(2,3,4) unfolding e by simp_all
  }
qed

text \<open>
  On the example world: \<open>edge-owned\<close> was created exactly 7 days before the run and stays.
  With the clock set so that \<open>fresh-owned\<close> is exactly 48 hours old, the freshness check
  finds no recent snapshot; one microsecond earlier it finds that one. The export is
  treated the same way at exactly 7 days.
\<close>

theorem cutoff_boundary_is_excluded_witness:
  "distinct (map DBSnapshotIdentifier (db_snapshots example_world))
   \<and> distinct (map DBSnapshotArn (db_snapshots example_world))
   \<and> example_snapshot ''edge-owned'' ''manual'' 7 ''available'' owned
        \<in> set (db_snapshots example_world)
   \<and> SnapshotCreateTime (example_snapshot ''edge-owned'' ''manual'' 7 ''available'' owned)
        = utcnow example_world - timedelta_days 7
   \<and> example_snapshot ''edge-owned'' ''manual'' 7 ''available'' owned
        \<in> set (db_snapshots (snd (cleanup_old_snapshots ''dhakacart-db'' 7 example_world)))
   \<and> SnapshotCreateTime (example_snapshot ''fresh-owned'' ''manual'' 1 ''available'' owned)
        = utcnow (example_world\<lparr>utcnow := 1700000000000000 + timedelta_days 1\<rparr>)
            - timedelta_hours 48
   \<and> verify_recent_snapshots ''dhakacart-db''
        (example_world\<lparr>utcnow := 1700000000000000 + timedelta_days 1\<rparr>)
       = SnapshotVerification FAIL 0 0 []
   \<and> verify_recent_snapshots ''dhakacart-db''
        (example_world\<lparr>utcnow := 1700000000000000 + timedelta_days 1 - 1\<rparr>)
       = SnapshotVerification PASS 1 1
           [snapshot_entry_of (example_snapshot ''fresh-owned'' ''manual'' 1 ''available'' owned)]
   \<and> verify_s3_backups ''dhakacart-backups''
        (example_world\<lparr>utcnow := 1700000000000000 + timedelta_days 6\<rparr>)
       = S3Verification WARN 0 0 []
   \<and> s3_verification_status
        (verify_s3_backups ''dhakacart-backups''
           (example_world\<lparr>utcnow := 1700000000000000 + timedelta_days 6 - 1\<rparr>)) = PASS"
proof -
  let ?edge = "example_snapshot ''edge-owned'' ''manual'' 7 ''available'' owned"
  let ?wB = "example_world\<lparr>utcnow := 1700000000000000 + timedelta_days 1\<rparr>"
  let ?wC = "example_world\<lparr>utcnow := 1700000000000000 + timedelta_days 6\<rparr>"
  have h1: "distinct (map DBSnapshotIdentifier (db_snapshots example_world))"
    by (simp add: example_world_def example_snapshot_def)
  have h2: "distinct (map DBSnapshotArn (db_snapshots example_world))"
    by (simp add: example_world_def example_snapshot_def)
  have h1B: "distinct (map DBSnapshotIdentifier (db_snapshots ?wB))" using h1 by simp
  have h2B: "distinct (map DBSnapshotArn (db_snapshots ?wB))" using h2 by simp
  have h1C: "distinct (map DBSnapshotIdentifier (db_snapshots ?wC))" using h1 by simp
  have h2C: "distinct (map DBSnapshotArn (db_snapshots ?wC))" using h2 by simp
  have a1: "?edge \<in> set (db_snapshots example_world)"
    by (simp add: example_world_def)
  have a2: "SnapshotCreateTime ?edge = utcnow example_world - timedelta_days 7"
    by (simp add: example_world_def example_snapshot_def)
  note A = cutoff_boundary_is_excluded[OF h1 h2, THEN conjunct1, rule_format,
      OF conjI[OF a1 conjI[OF a2 example_cleanup]]]
  have a3: "?edge \<in> set (db_snapshots (snd (cleanup_old_snapshots ''dhakacart-db'' 7 example_world)))"
    using A by (simp add: example_cleanup)
  have b1: "SnapshotCreateTime (example_snapshot ''fresh-owned'' ''manual'' 1 ''available'' owned)
        = utcnow ?wB - timedelta_hours 48"
    by (simp add: example_snapshot_def timedelta_days_def timedelta_hours_def)
  have bold: "\<forall>s \<in> set (db_snapshots ?wB). DBInstanceIdentifier s = ''dhakacart-db'' \<longrightarrow>
                   SnapshotCreateTime s \<le> utcnow ?wB - timedelta_hours 48"
    by (simp add: example_world_def example_snapshot_def timedelta_days_def timedelta_hours_def)
  have b2: "verify_recent_snapshots ''dhakacart-db'' ?wB = SnapshotVerification FAIL 0 0 []"
    by code_simp
  note B = cutoff_boundary_is_excluded[OF h1B h2B, THEN conjunct2, THEN conjunct1, rule_format,
      OF b2, THEN conjunct2, THEN conjunct2, THEN conjunct2, THEN mp, OF bold]
  have b3: "verify_recent_snapshots ''dhakacart-db''
        (example_world\<lparr>utcnow := 1700000000000000 + timedelta_days 1 - 1\<rparr>)
       = SnapshotVerification PASS 1 1
           [snapshot_entry_of (example_snapshot ''fresh-owned'' ''manual'' 1 ''available'' owned)]"
    by code_simp
  have cold: "\<forall>obj \<in> set (s3_objects ?wC ''dhakacart-backups'').
                 startswith (Key obj) ''exports/'' \<longrightarrow>
                   LastModified obj \<le> utcnow ?wC - timedelta_days 7"
    by (simp add: example_world_def example_objects_def timedelta_days_def)
  have c1: "verify_s3_backups ''dhakacart-backups'' ?wC = S3Verification WARN 0 0 []"
    by code_simp
  note C = cutoff_boundary_is_excluded[OF h1C h2C, THEN conjunct2, THEN conjunct2, rule_format,
      OF c1, THEN conjunct2, THEN conjunct2, THEN mp, OF cold]
  have c2: "s3_verification_status
        (verify_s3_backups ''dhakacart-backups''
           (example_world\<lparr>utcnow := 1700000000000000 + timedelta_days 6 - 1\<rparr>)) = PASS"
    by code_simp
  show ?thesis using h1 h2 a1 a2 a3 b1 b2 b3 c1 c2 B C by (intro conjI)
qed


subsection \<open>Running cleanup twice\<close>













end
